theory Spec2Isabelle
  imports
    Main
    "HOL-Library.Word"
    "HOL-Library.Multiset"
    "HOL-Library.Char_ord"
    "HOL-Library.List_Lexorder"
begin

section \<open>Message encoders of x/wasm/keeper/handler\_plugin\_encoders.go\<close>

text \<open>
  A shallow embedding of the encoder plugin of the wasm keeper: the registry
  \<open>MessageEncoders\<close> with \<open>DefaultEncoders\<close>, \<open>Merge\<close> and \<open>Encode\<close>, the
  per-kind encoders, and the coin conversion helpers.

  Conventions of the embedding.
  \<^item> A Go function returning \<open>(x, err)\<close> returns the pair \<open>(x, err)\<close> with
    \<open>err :: error option\<close> (\<open>None\<close> is Go's \<open>nil\<close> error). A \<open>nil\<close> slice and an
    empty slice are both \<open>[]\<close>; the source never compares a slice that it builds with \<open>nil\<close>.
  \<^item> A Go panic is the value \<open>Panic\<close> of the type \<open>exec\<close>; a normal return is \<open>Done\<close>.
  \<^item> A struct whose fields are pointers (one populated variant out of many) is a record of
    options, so that messages with zero or several populated variants are values of the model,
    exactly as they are values of the Go type.
  \<^item> \<open>uint64\<close> is \<open>64 word\<close>; \<open>[]byte\<close> is a list of \<open>8 word\<close>; a Go \<open>string\<close> is a
    \<open>string\<close>, compared bytewise (the order of \<open>HOL-Library.List_Lexorder\<close> over
    \<open>HOL-Library.Char_ord\<close>).
  \<^item> Functions and constants that the file uses and that are declared elsewhere
    (other packages of the repository, the Cosmos SDK, the Go standard library) are either
    the fields of the record \<open>Env\<close>, taken as parameters, or modelled below with a comment
    that names the function modelled.
\<close>

type_synonym uint64 = "64 word"
type_synonym bytes = "8 word list"
type_synonym AccAddress = bytes

subsection \<open>Errors and panics\<close>

text \<open>
  The registered errors used by the file, \<open>errorsmod.Wrap\<close> as the constructor \<open>Wrap\<close>
  (cause first, description second, as in the source), and \<open>LibError\<close> for an error value
  made by a library with \<open>errors.New\<close> or \<open>fmt.Errorf\<close>, carrying its text.
\<close>

datatype error =
    ErrUnknownMsg
  | ErrInvalidMsg
  | ErrInvalid
  | ErrInvalidCoins
  | Wrap error string
  | LibError string

text \<open>The registered error at the root of a chain of wraps: what \<open>errors.Is\<close> matches.\<close>

fun root_cause :: "error \<Rightarrow> error" where
  "root_cause (Wrap e d) = root_cause e"
| "root_cause e = e"

datatype 'a exec = Done 'a | Panic string

text \<open>Calling a \<open>nil\<close> function value panics.\<close>

definition nil_func_call :: "'a exec" where
  "nil_func_call =
     Panic ''runtime error: invalid memory address or nil pointer dereference''"

subsection \<open>Formatting of numbers (\<open>%d\<close>, \<open>%v\<close>)\<close>

text \<open>The decimal digits of a number are put in front of \<open>acc\<close>, the last digit first.\<close>

fun digits_of :: "nat \<Rightarrow> string \<Rightarrow> string" where
  "digits_of n acc =
     (if 10 \<le> n then digits_of (n div 10) ((''0123456789'' ! (n mod 10)) # acc)
      else (''0123456789'' ! n) # acc)"

declare digits_of.simps [simp del]

definition format_nat :: "nat \<Rightarrow> string" where
  "format_nat n = digits_of n []"

definition format_int :: "int \<Rightarrow> string" where
  "format_int i = (if 0 \<le> i then format_nat (nat i) else CHR ''-'' # format_nat (nat (- i)))"

subsection \<open>sdkmath.Int and sdk.Coin\<close>

text \<open>
  \<open>sdkmath.Int\<close> (package \<open>cosmossdk.io/math\<close>, \<open>int.go\<close>) wraps a \<open>*big.Int\<close>:
  \<open>None\<close> is the zero value \<open>Int{}\<close> (a \<open>nil\<close> pointer), \<open>Some i\<close> a number. The type
  is bounded (its range is documented as \<open>-(2^256 - 1)\<close> to \<open>2^256 - 1\<close>):
  \<open>NewIntFromString\<close> rejects and the arithmetic panics on a result of more than
  \<open>MaxBitLen = 256\<close> bits. \<open>sdk.Coin\<close> and \<open>sdk.Coins\<close> are those of
  \<open>types/coin.go\<close> of the SDK.
\<close>

type_synonym sdkInt = "int option"

definition MaxBitLen :: nat where
  "MaxBitLen = 256"

text \<open>\<open>i.BitLen() > MaxBitLen\<close>: the length of the absolute value in bits.\<close>

definition BitLen_exceeds :: "int \<Rightarrow> bool" where
  "BitLen_exceeds i = (2 ^ MaxBitLen \<le> \<bar>i\<bar>)"

datatype Coin = Coin (Denom: string) (Amount: sdkInt)

type_synonym Coins = "Coin list"

text \<open>The coin of the VM (\<open>wasmvmtypes.Coin\<close>): both fields are strings.\<close>

datatype WasmCoin = WasmCoin (wDenom: string) (wAmount: string)

subsection \<open>The ambient context\<close>

text \<open>
  The gas meter of the context, after \<open>basicGasMeter\<close> and \<open>infiniteGasMeter\<close> of the
  SDK (package \<open>cosmossdk.io/store/types\<close>, \<open>gas.go\<close>): a limit (\<open>None\<close> for the
  infinite meter) and the gas consumed so far.
\<close>

datatype GasMeter = GasMeter (limit: "nat option") (consumed: nat)

definition MaxUint64 :: nat where
  "MaxUint64 = 2 ^ 64 - 1"

text \<open>
  \<open>ConsumeGas(amount, descriptor)\<close>: adds the amount; panics on overflow of \<open>uint64\<close>
  and, for a meter with a limit, when the consumed gas exceeds the limit. The meter is
  updated before the panic. The result is the meter after the call and the panic, if any.
\<close>

definition ConsumeGas :: "GasMeter \<Rightarrow> nat \<Rightarrow> string \<Rightarrow> GasMeter \<times> string option" where
  "ConsumeGas g amount descriptor =
     (if MaxUint64 - consumed g < amount then
        (GasMeter (limit g) (case limit g of None \<Rightarrow> 0 | Some l \<Rightarrow> MaxUint64),
         Some (''gas overflow: '' @ descriptor))
      else
        (case limit g of
           None \<Rightarrow> (GasMeter None (consumed g + amount), None)
         | Some l \<Rightarrow>
             if l < consumed g + amount
             then (GasMeter (Some l) (consumed g + amount), Some (''out of gas: '' @ descriptor))
             else (GasMeter (Some l) (consumed g + amount), None)))"

text \<open>\<open>codectypes.Any\<close>: a type URL and the encoded value.\<close>

datatype codec_Any = codec_Any (TypeUrl: string) (AnyValue: bytes)

subsection \<open>Host messages (\<open>sdk.Msg\<close>)\<close>

text \<open>
  The host messages that the encoders build, one constructor per message type, the
  arguments in the order given beside each constructor. \<open>ProtoMsg\<close> stands for any other
  registered message, which only the codec of the \<open>Any\<close> encoder can produce.
\<close>

datatype VoteOption = OptionEmpty | OptionYes | OptionAbstain | OptionNo | OptionNoWithVeto

datatype WeightedVoteOption = WeightedVoteOption (Option: VoteOption) (Weight: string)

text \<open>\<open>ibcclienttypes.NewHeight(revisionNumber, revisionHeight)\<close>\<close>

datatype Height = NewHeight uint64 uint64

text \<open>\<open>channeltypesv2.Payload\<close>: SourcePort, DestinationPort, Version, Encoding, Value\<close>

datatype Payload = Payload string string string string bytes

datatype sdkMsg =
    MsgSend string string Coins
      \<comment> \<open>FromAddress, ToAddress, Amount\<close>
  | MsgSetWithdrawAddress string string
      \<comment> \<open>DelegatorAddress, WithdrawAddress\<close>
  | MsgWithdrawDelegatorReward string string
      \<comment> \<open>DelegatorAddress, ValidatorAddress\<close>
  | MsgFundCommunityPool string Coins
      \<comment> \<open>Depositor, Amount\<close>
  | MsgDelegate string string Coin
      \<comment> \<open>DelegatorAddress, ValidatorAddress, Amount\<close>
  | MsgBeginRedelegate string string string Coin
      \<comment> \<open>DelegatorAddress, ValidatorSrcAddress, ValidatorDstAddress, Amount\<close>
  | MsgUndelegate string string Coin
      \<comment> \<open>DelegatorAddress, ValidatorAddress, Amount\<close>
  | MsgExecuteContract string string bytes Coins
      \<comment> \<open>Sender, Contract, Msg, Funds\<close>
  | MsgInstantiateContract string uint64 string bytes string Coins
      \<comment> \<open>Sender, CodeID, Label, Msg, Admin, Funds\<close>
  | MsgInstantiateContract2 string string uint64 string bytes Coins bytes bool
      \<comment> \<open>Sender, Admin, CodeID, Label, Msg, Funds, Salt, FixMsg\<close>
  | MsgMigrateContract string string uint64 bytes
      \<comment> \<open>Sender, Contract, CodeID, Msg\<close>
  | MsgClearAdmin string string
      \<comment> \<open>Sender, Contract\<close>
  | MsgUpdateAdmin string string string
      \<comment> \<open>Sender, Contract, NewAdmin\<close>
  | MsgChannelCloseInit string string string
      \<comment> \<open>PortId, ChannelId, Signer\<close>
  | MsgTransfer string string Coin string string Height uint64 string
      \<comment> \<open>SourcePort, SourceChannel, Token, Sender, Receiver, TimeoutHeight,
          TimeoutTimestamp, Memo\<close>
  | MsgSendPacket string uint64 "Payload list" string
      \<comment> \<open>SourceClient, TimeoutTimestamp, Payloads, Signer\<close>
  | MsgVote uint64 string VoteOption string
      \<comment> \<open>ProposalId, Voter, Option, Metadata\<close>
  | MsgVoteWeighted uint64 string "WeightedVoteOption list" string
      \<comment> \<open>ProposalId, Voter, Options, Metadata\<close>
  | ProtoMsg string bytes

subsection \<open>The context and the codec\<close>

text \<open>
  \<open>sdk.Context\<close> as far as the encoders use it: the gas meter, and a trace of the calls
  that an encoder makes to its collaborators (the gas meter and the codec), in the order
  in which they are made. The trace is what a statement about the order of effects reads.
\<close>

datatype call =
    ConsumeGas_call nat string
  | UnpackAny_call codec_Any
  | UnpackInterfaces_call sdkMsg

record Context =
  Meter :: GasMeter
  trace :: "call list"

text \<open>
  \<open>codectypes.AnyUnpacker\<close>: \<open>UnpackAny\<close> decodes an \<open>Any\<close> into a message or fails;
  \<open>codectypes.UnpackInterfaces(msg, unpacker)\<close> resolves the \<open>Any\<close> values nested in a
  decoded message or fails. Both are supplied by the caller.
\<close>

record AnyUnpacker =
  UnpackAny :: "codec_Any \<Rightarrow> error + sdkMsg"
  UnpackInterfaces :: "sdkMsg \<Rightarrow> error option"

text \<open>\<open>types.ICS20TransferPortSource\<close>: its one method \<open>GetPort(ctx)\<close>.\<close>

type_synonym ICS20TransferPortSource = "Context \<Rightarrow> string"

subsection \<open>Declarations used from outside the file\<close>

text \<open>
  What the file uses and does not declare, taken as parameters:
  \<^item> \<open>DefaultGasMultiplier\<close>: the constant \<open>types.DefaultGasMultiplier\<close>;
  \<open>PortIDForContract\<close>: the function of that name of the keeper package;
  \<^item> \<open>AccString\<close>: \<open>sdk.AccAddress.String\<close> (the bech32 text of an address);
  \<^item> \<open>SetString\<close>: \<open>big.Int.SetString(s, 0)\<close>, with which \<open>sdkmath\<close> reads an integer
    (\<open>None\<close> when the text is not a number);
  \<^item> \<open>ValidateDenom\<close>: \<open>sdk.ValidateDenom\<close>, the denomination rule of the chain;
  \<^item> \<open>LegacyNewDecFromStr\<close> and \<open>DecString\<close>: the decimal parser of \<open>sdkmath\<close> and
    \<open>LegacyDec.String\<close>, a decimal being kept as the integer of its fixed-point form;
  \<^item> \<open>ErrorText\<close>: the method \<open>Error()\<close> of an error, as \<open>%s\<close> prints it.
\<close>

record Env =
  DefaultGasMultiplier :: nat
  PortIDForContract :: "AccAddress \<Rightarrow> string"
  AccString :: "AccAddress \<Rightarrow> string"
  SetString :: "string \<Rightarrow> int option"
  ValidateDenom :: "string \<Rightarrow> error option"
  LegacyNewDecFromStr :: "string \<Rightarrow> error + int"
  DecString :: "int \<Rightarrow> string"
  ErrorText :: "error \<Rightarrow> string"

subsection \<open>Messages of the VM (\<open>wasmvmtypes\<close>)\<close>

text \<open>
  The leaf messages are constructors with their fields in the order given; the
  messages with one pointer per variant are records of options.
\<close>

datatype SendMsg = SendMsg string "WasmCoin list"
  \<comment> \<open>ToAddress, Amount\<close>

record BankMsg =
  Send :: "SendMsg option"

datatype SetWithdrawAddressMsg = SetWithdrawAddressMsg string
  \<comment> \<open>Address\<close>

datatype WithdrawDelegatorRewardMsg = WithdrawDelegatorRewardMsg string
  \<comment> \<open>Validator\<close>

datatype FundCommunityPoolMsg = FundCommunityPoolMsg "WasmCoin list"
  \<comment> \<open>Amount\<close>

record DistributionMsg =
  SetWithdrawAddress :: "SetWithdrawAddressMsg option"
  WithdrawDelegatorReward :: "WithdrawDelegatorRewardMsg option"
  FundCommunityPool :: "FundCommunityPoolMsg option"

datatype DelegateMsg = DelegateMsg string WasmCoin
  \<comment> \<open>Validator, Amount\<close>

datatype UndelegateMsg = UndelegateMsg string WasmCoin
  \<comment> \<open>Validator, Amount\<close>

datatype RedelegateMsg = RedelegateMsg string string WasmCoin
  \<comment> \<open>SrcValidator, DstValidator, Amount\<close>

record StakingMsg =
  Delegate :: "DelegateMsg option"
  Undelegate :: "UndelegateMsg option"
  Redelegate :: "RedelegateMsg option"

datatype AnyMsg = AnyMsg (TypeURL: string) (Value: bytes)

datatype ExecuteMsg = ExecuteMsg string bytes "WasmCoin list"
  \<comment> \<open>ContractAddr, Msg, Funds\<close>

datatype InstantiateMsg = InstantiateMsg uint64 bytes "WasmCoin list" string string
  \<comment> \<open>CodeID, Msg, Funds, Label, Admin\<close>

datatype Instantiate2Msg = Instantiate2Msg uint64 bytes "WasmCoin list" string string bytes
  \<comment> \<open>CodeID, Msg, Funds, Label, Admin, Salt\<close>

datatype MigrateMsg = MigrateMsg string uint64 bytes
  \<comment> \<open>ContractAddr, NewCodeID, Msg\<close>

datatype UpdateAdminMsg = UpdateAdminMsg string string
  \<comment> \<open>ContractAddr, Admin\<close>

datatype ClearAdminMsg = ClearAdminMsg string
  \<comment> \<open>ContractAddr\<close>

record WasmMsg =
  Execute :: "ExecuteMsg option"
  Instantiate :: "InstantiateMsg option"
  Instantiate2 :: "Instantiate2Msg option"
  Migrate :: "MigrateMsg option"
  UpdateAdmin :: "UpdateAdminMsg option"
  ClearAdmin :: "ClearAdminMsg option"

datatype IBCTimeoutBlock = IBCTimeoutBlock uint64 uint64
  \<comment> \<open>Revision, Height\<close>

datatype IBCTimeout = IBCTimeout "IBCTimeoutBlock option" uint64
  \<comment> \<open>Block, Timestamp\<close>

datatype TransferMsg = TransferMsg string string WasmCoin IBCTimeout string
  \<comment> \<open>ChannelID, ToAddress, Amount, Timeout, Memo\<close>

datatype CloseChannelMsg = CloseChannelMsg string
  \<comment> \<open>ChannelID\<close>

datatype PayPacketFeeMsg = PayPacketFeeMsg string string
  \<comment> \<open>PortID, ChannelID; the fee itself is not read by the encoder\<close>

datatype PayPacketFeeAsyncMsg = PayPacketFeeAsyncMsg string string uint64
  \<comment> \<open>PortID, ChannelID, Sequence; the fee itself is not read by the encoder\<close>

record IBCMsg =
  Transfer :: "TransferMsg option"
  CloseChannel :: "CloseChannelMsg option"
  PayPacketFee :: "PayPacketFeeMsg option"
  PayPacketFeeAsync :: "PayPacketFeeAsyncMsg option"

datatype IBC2Payload = IBC2Payload string string string string bytes
  \<comment> \<open>SourcePort, DestinationPort, Version, Encoding, Value\<close>

datatype IBC2SendPacketMsg = IBC2SendPacketMsg string "IBC2Payload list" uint64
  \<comment> \<open>SourceClient, Payloads, Timeout\<close>

record IBC2Msg =
  SendPacket :: "IBC2SendPacketMsg option"

text \<open>
  The vote option of the VM, an integer type with five named values;
  \<open>UnsetVoteOption\<close> is its zero value.
\<close>

datatype voteOption = UnsetVoteOption | Yes | No | Abstain | NoWithVeto

datatype VoteMsg = VoteMsg uint64 voteOption
  \<comment> \<open>ProposalId, Option\<close>

datatype WeightedVoteOption_vm = WeightedVoteOption_vm voteOption string
  \<comment> \<open>Option, Weight\<close>

datatype VoteWeightedMsg = VoteWeightedMsg uint64 "WeightedVoteOption_vm list"
  \<comment> \<open>ProposalId, Options\<close>

record GovMsg =
  Vote :: "VoteMsg option"
  VoteWeighted :: "VoteWeightedMsg option"

text \<open>
  \<open>wasmvmtypes.CosmosMsg\<close>. Its fields carry the suffix \<open>_msg\<close>, the plain names being
  the fields of the registry below. \<open>Custom\<close> is a \<open>json.RawMessage\<close>, \<open>nil\<close> when absent.
\<close>

record CosmosMsg =
  Bank_msg :: "BankMsg option"
  Custom_msg :: "bytes option"
  Distribution_msg :: "DistributionMsg option"
  IBC_msg :: "IBCMsg option"
  IBC2_msg :: "IBC2Msg option"
  Staking_msg :: "StakingMsg option"
  Any_msg :: "AnyMsg option"
  Wasm_msg :: "WasmMsg option"
  Gov_msg :: "GovMsg option"

subsection \<open>The registry\<close>

type_synonym encoded = "(sdkMsg list \<times> error option) exec"

type_synonym BankEncoder = "AccAddress \<Rightarrow> BankMsg \<Rightarrow> encoded"
type_synonym CustomEncoder = "AccAddress \<Rightarrow> bytes \<Rightarrow> encoded"
type_synonym DistributionEncoder = "AccAddress \<Rightarrow> DistributionMsg \<Rightarrow> encoded"
type_synonym StakingEncoder = "AccAddress \<Rightarrow> StakingMsg \<Rightarrow> encoded"
type_synonym AnyEncoder = "Context \<Rightarrow> AccAddress \<Rightarrow> AnyMsg \<Rightarrow> encoded \<times> Context"
type_synonym WasmEncoder = "AccAddress \<Rightarrow> WasmMsg \<Rightarrow> encoded"
type_synonym IBCEncoder = "Context \<Rightarrow> AccAddress \<Rightarrow> string \<Rightarrow> IBCMsg \<Rightarrow> encoded \<times> Context"
type_synonym IBC2Encoder = "AccAddress \<Rightarrow> IBC2Msg \<Rightarrow> encoded"
type_synonym GovEncoder = "AccAddress \<Rightarrow> GovMsg \<Rightarrow> encoded"

text \<open>
  \<open>MessageEncoders\<close>: one function value per kind, \<open>None\<close> for a \<open>nil\<close> function. The
  encoders that take the context return it, since they may charge gas.
\<close>

record MessageEncoders =
  Bank :: "BankEncoder option"
  Custom :: "CustomEncoder option"
  Distribution :: "DistributionEncoder option"
  IBC :: "IBCEncoder option"
  IBC2 :: "IBC2Encoder option"
  Staking :: "StakingEncoder option"
  Any :: "AnyEncoder option"
  Wasm :: "WasmEncoder option"
  Gov :: "GovEncoder option"

subsection \<open>Library operations on integers and coins\<close>

text \<open>
  \<open>sdkmath.NewIntFromString\<close>: reads the text with \<open>SetString\<close> and rejects a number
  of more than \<open>MaxBitLen\<close> bits (\<open>i.BitLen() > MaxBitLen\<close>). It returns the number and
  the flag \<open>ok\<close>; the number is the zero value when \<open>ok\<close> is false.
\<close>

definition NewIntFromString :: "Env \<Rightarrow> string \<Rightarrow> sdkInt \<times> bool" where
  "NewIntFromString E s =
     (case SetString E s of
        None \<Rightarrow> (None, False)
      | Some i \<Rightarrow> if BitLen_exceeds i then (None, False) else (Some i, True))"

text \<open>
  \<open>sdk.Coin.Validate\<close>: the denomination rule first (\<open>ValidateDenom\<close>), then the amount,
  which must be present (\<open>errors.New("amount is nil")\<close>) and not negative
  (\<open>fmt.Errorf("negative coin amount: %v", coin.Amount)\<close>).
\<close>

definition Coin_Validate :: "Env \<Rightarrow> Coin \<Rightarrow> error option" where
  "Coin_Validate E coin =
     (case ValidateDenom E (Denom coin) of
        Some err \<Rightarrow> Some err
      | None \<Rightarrow>
          (case Amount coin of
             None \<Rightarrow> Some (LibError ''amount is nil'')
           | Some a \<Rightarrow>
               if a < 0 then Some (LibError (''negative coin amount: '' @ format_int a))
               else None))"

text \<open>
  \<open>sdkmath.Int.Add\<close>: the sum, checked as \<open>NewIntFromString\<close> checks its number; it
  panics on overflow, and on a \<open>nil\<close> operand.
\<close>

definition Int_Add :: "sdkInt \<Rightarrow> sdkInt \<Rightarrow> sdkInt exec" where
  "Int_Add i i2 =
     (case i of
        None \<Rightarrow> nil_func_call
      | Some a \<Rightarrow>
          (case i2 of
             None \<Rightarrow> nil_func_call
           | Some b \<Rightarrow>
               if BitLen_exceeds (a + b) then Panic ''integer overflow''
               else Done (Some (a + b))))"

text \<open>\<open>sdk.Coin.Add\<close>: panics when the denominations differ.\<close>

definition Coin_Add :: "Coin \<Rightarrow> Coin \<Rightarrow> Coin exec" where
  "Coin_Add coin coinB =
     (if Denom coin \<noteq> Denom coinB then Panic ''invalid coin denominations''
      else
        (case Int_Add (Amount coin) (Amount coinB) of
           Panic p \<Rightarrow> Panic p
         | Done a \<Rightarrow> Done (Coin (Denom coin) a)))"

text \<open>\<open>sdk.Coin.IsZero\<close>\<close>

definition Coin_IsZero :: "Coin \<Rightarrow> bool exec" where
  "Coin_IsZero coin = (case Amount coin of None \<Rightarrow> nil_func_call | Some a \<Rightarrow> Done (a = 0))"

text \<open>\<open>sdk.Coins.isSorted\<close>: no coin has a denomination greater than its successor's.\<close>

fun isSorted :: "Coins \<Rightarrow> bool" where
  "isSorted (a # b # coins) = (\<not> Denom b < Denom a \<and> isSorted (b # coins))"
| "isSorted coins = True"

text \<open>
  \<open>sdk.Coins.Sort\<close>: sorts by denomination, ascending. The library sort is not stable;
  the encoders only sort lists of distinct denominations, on which every sort agrees.
\<close>

definition Coins_Sort :: "Coins \<Rightarrow> Coins" where
  "Coins_Sort coins = sort_key Denom coins"

text \<open>
  \<open>sdk.Coins.safeAdd\<close>, the body of \<open>sdk.Coins.Add\<close>. The coins of both lists are grouped
  by denomination (\<open>uniqCoins[c.Denom] = append(uniqCoins[c.Denom], c)\<close>); each group is
  summed from zero with \<open>Coin.Add\<close>; a sum that is not zero is kept; the result is sorted.
  The groups are kept in the order in which their denominations first occur; Go visits the
  keys of a map in no fixed order, and the final sort of distinct denominations makes the
  result the same for every order.
\<close>

fun uniq_append :: "(string \<times> Coins) list \<Rightarrow> Coin \<Rightarrow> (string \<times> Coins) list" where
  "uniq_append [] c = [(Denom c, [c])]"
| "uniq_append ((denom, cL) # m) c =
     (if denom = Denom c then (denom, cL @ [c]) # m else (denom, cL) # uniq_append m c)"

definition uniqCoins :: "Coins \<Rightarrow> Coins \<Rightarrow> (string \<times> Coins) list" where
  "uniqCoins coins coinsB = foldl uniq_append [] (coins @ coinsB)"

fun sum_group :: "Coin \<Rightarrow> Coins \<Rightarrow> Coin exec" where
  "sum_group comboCoin [] = Done comboCoin"
| "sum_group comboCoin (c # cL) =
     (case Coin_Add comboCoin c of
        Panic p \<Rightarrow> Panic p
      | Done comboCoin' \<Rightarrow> sum_group comboCoin' cL)"

fun coalesce :: "(string \<times> Coins) list \<Rightarrow> Coins \<Rightarrow> Coins exec" where
  "coalesce [] coalesced = Done coalesced"
| "coalesce ((denom, cL) # m) coalesced =
     (case sum_group (Coin denom (Some 0)) cL of
        Panic p \<Rightarrow> Panic p
      | Done comboCoin \<Rightarrow>
          (case Coin_IsZero comboCoin of
             Panic p \<Rightarrow> Panic p
           | Done z \<Rightarrow> coalesce m (if z then coalesced else coalesced @ [comboCoin])))"

definition safeAdd :: "Coins \<Rightarrow> Coins \<Rightarrow> Coins exec" where
  "safeAdd coins coinsB =
     (if \<not> isSorted coins then Panic ''Coins (self) must be sorted''
      else if \<not> isSorted coinsB then Panic ''Wrong argument: coins must be sorted''
      else
        (case coalesce (uniqCoins coins coinsB) [] of
           Panic p \<Rightarrow> Panic p
         | Done coalesced \<Rightarrow> Done (Coins_Sort coalesced)))"

definition Coins_Add :: "Coins \<Rightarrow> Coins \<Rightarrow> Coins exec" where
  "Coins_Add coins coinsB = safeAdd coins coinsB"

subsection \<open>Conversion helpers of the file\<close>

definition ConvertWasmCoinToSdkCoin :: "Env \<Rightarrow> WasmCoin \<Rightarrow> Coin \<times> error option" where
  "ConvertWasmCoinToSdkCoin E coin =
     (case NewIntFromString E (wAmount coin) of
        (amount, ok) \<Rightarrow>
          if \<not> ok then (Coin [] None, Some (Wrap ErrInvalidCoins (wAmount coin @ wDenom coin)))
          else
            (let r = Coin (wDenom coin) amount
             in (r, Coin_Validate E r)))"

text \<open>The loop of \<open>ConvertWasmCoinsToSdkCoins\<close>, with \<open>toSend\<close> as the accumulator.\<close>

fun convert_coins_loop :: "Env \<Rightarrow> Coins \<Rightarrow> WasmCoin list \<Rightarrow> (Coins \<times> error option) exec" where
  "convert_coins_loop E toSend [] = Done (Coins_Sort toSend, None)"
| "convert_coins_loop E toSend (coin # coins) =
     (case ConvertWasmCoinToSdkCoin E coin of
        (c, Some err) \<Rightarrow> Done ([], Some err)
      | (c, None) \<Rightarrow>
          (case Coins_Add toSend [c] of
             Panic p \<Rightarrow> Panic p
           | Done toSend' \<Rightarrow> convert_coins_loop E toSend' coins))"

definition ConvertWasmCoinsToSdkCoins :: "Env \<Rightarrow> WasmCoin list \<Rightarrow> (Coins \<times> error option) exec" where
  "ConvertWasmCoinsToSdkCoins E coins = convert_coins_loop E [] coins"

definition ConvertWasmIBCTimeoutHeightToCosmosHeight :: "IBCTimeoutBlock option \<Rightarrow> Height" where
  "ConvertWasmIBCTimeoutHeightToCosmosHeight ibcTimeoutBlock =
     (case ibcTimeoutBlock of
        None \<Rightarrow> NewHeight 0 0
      | Some (IBCTimeoutBlock revision height) \<Rightarrow> NewHeight revision height)"

definition convertVoteOption :: "voteOption \<Rightarrow> VoteOption \<times> error option" where
  "convertVoteOption s =
     (case s of
        Yes \<Rightarrow> (OptionYes, None)
      | No \<Rightarrow> (OptionNo, None)
      | NoWithVeto \<Rightarrow> (OptionNoWithVeto, None)
      | Abstain \<Rightarrow> (OptionAbstain, None)
      | UnsetVoteOption \<Rightarrow> (OptionEmpty, Some ErrInvalid))"

subsection \<open>Time conversion of the standard library\<close>

text \<open>Go's \<open>/\<close> on integers truncates toward zero.\<close>

definition quo :: "int \<Rightarrow> int \<Rightarrow> int" where
  "quo a b = sgn a * sgn b * (\<bar>a\<bar> div \<bar>b\<bar>)"

text \<open>
  \<open>time.Unix(sec, nsec)\<close> of package \<open>time\<close> normalises \<open>nsec\<close> into
  \<open>[0, 999999999]\<close>, carrying into the seconds: outside that range it takes
  \<open>n := nsec / 1e9\<close>, adds \<open>n\<close> to the seconds, subtracts \<open>n * 1e9\<close> from \<open>nsec\<close> and,
  if \<open>nsec\<close> is still negative, adds \<open>1e9\<close> to it and takes one second off. The time is
  kept as the pair; \<open>Time.Unix()\<close> returns the seconds. The encoder calls it with
  \<open>sec = 0\<close>, so that no sum leaves the range of \<open>int64\<close>.
\<close>

definition time_Unix :: "int \<Rightarrow> int \<Rightarrow> int \<times> int" where
  "time_Unix sec nsec =
     (if nsec < 0 \<or> 1000000000 \<le> nsec then
        (let n = quo nsec 1000000000;
             sec1 = sec + n;
             nsec1 = nsec - n * 1000000000
         in if nsec1 < 0 then (sec1 - 1, nsec1 + 1000000000) else (sec1, nsec1))
      else (sec, nsec))"

definition Time_Unix :: "int \<times> int \<Rightarrow> int" where
  "Time_Unix t = fst t"

text \<open>
  The conversions \<open>int64(x)\<close> of a \<open>uint64\<close> and \<open>uint64(x)\<close> of an \<open>int64\<close> keep the 64
  bits: the first reads them as two's complement, the second wraps a negative number.
\<close>

definition int64 :: "uint64 \<Rightarrow> int" where
  "int64 x = sint x"

definition to_uint64 :: "int \<Rightarrow> uint64" where
  "to_uint64 x = word_of_int x"

subsection \<open>The encoders\<close>

definition anyMsgGasCost :: nat where
  "anyMsgGasCost = 700000"

definition EncodeBankMsg :: "Env \<Rightarrow> AccAddress \<Rightarrow> BankMsg \<Rightarrow> encoded" where
  "EncodeBankMsg E sender msg =
     (case Send msg of
        None \<Rightarrow> Done ([], Some (Wrap ErrUnknownMsg ''unknown variant of Bank''))
      | Some (SendMsg toAddress amount) \<Rightarrow>
          if length amount = 0 then Done ([], None)
          else
            (case ConvertWasmCoinsToSdkCoins E amount of
               Panic p \<Rightarrow> Panic p
             | Done (toSend, Some err) \<Rightarrow> Done ([], Some err)
             | Done (toSend, None) \<Rightarrow>
                 Done ([MsgSend (AccString E sender) toAddress toSend], None)))"

definition NoCustomMsg :: "AccAddress \<Rightarrow> bytes \<Rightarrow> encoded" where
  "NoCustomMsg sender msg = Done ([], Some (Wrap ErrUnknownMsg ''custom variant not supported''))"

definition EncodeDistributionMsg :: "Env \<Rightarrow> AccAddress \<Rightarrow> DistributionMsg \<Rightarrow> encoded" where
  "EncodeDistributionMsg E sender msg =
     (case SetWithdrawAddress msg of
        Some (SetWithdrawAddressMsg address) \<Rightarrow>
          Done ([MsgSetWithdrawAddress (AccString E sender) address], None)
      | None \<Rightarrow>
     (case WithdrawDelegatorReward msg of
        Some (WithdrawDelegatorRewardMsg validator) \<Rightarrow>
          Done ([MsgWithdrawDelegatorReward (AccString E sender) validator], None)
      | None \<Rightarrow>
     (case FundCommunityPool msg of
        Some (FundCommunityPoolMsg amount) \<Rightarrow>
          (case ConvertWasmCoinsToSdkCoins E amount of
             Panic p \<Rightarrow> Panic p
           | Done (amt, Some err) \<Rightarrow> Done ([], Some err)
           | Done (amt, None) \<Rightarrow> Done ([MsgFundCommunityPool (AccString E sender) amt], None))
      | None \<Rightarrow> Done ([], Some (Wrap ErrUnknownMsg ''unknown variant of Distribution'')))))"

definition EncodeStakingMsg :: "Env \<Rightarrow> AccAddress \<Rightarrow> StakingMsg \<Rightarrow> encoded" where
  "EncodeStakingMsg E sender msg =
     (case Delegate msg of
        Some (DelegateMsg validator amount) \<Rightarrow>
          (case ConvertWasmCoinToSdkCoin E amount of
             (coin, Some err) \<Rightarrow> Done ([], Some err)
           | (coin, None) \<Rightarrow> Done ([MsgDelegate (AccString E sender) validator coin], None))
      | None \<Rightarrow>
     (case Redelegate msg of
        Some (RedelegateMsg srcValidator dstValidator amount) \<Rightarrow>
          (case ConvertWasmCoinToSdkCoin E amount of
             (coin, Some err) \<Rightarrow> Done ([], Some err)
           | (coin, None) \<Rightarrow>
               Done ([MsgBeginRedelegate (AccString E sender) srcValidator dstValidator coin], None))
      | None \<Rightarrow>
     (case Undelegate msg of
        Some (UndelegateMsg validator amount) \<Rightarrow>
          (case ConvertWasmCoinToSdkCoin E amount of
             (coin, Some err) \<Rightarrow> Done ([], Some err)
           | (coin, None) \<Rightarrow> Done ([MsgUndelegate (AccString E sender) validator coin], None))
      | None \<Rightarrow> Done ([], Some (Wrap ErrUnknownMsg ''unknown variant of Staking'')))))"

text \<open>
  \<open>EncodeAnyMsg(unpacker)\<close> returns the encoder. The encoder charges the gas, then calls
  \<open>UnpackAny\<close>, then \<open>UnpackInterfaces\<close>; each call is appended to the trace when it is
  made. A panic of the gas meter ends the encoder at once.
\<close>

definition EncodeAnyMsg :: "Env \<Rightarrow> AnyUnpacker \<Rightarrow> AnyEncoder" where
  "EncodeAnyMsg E unpacker ctx sender msg =
     (let codecAny = codec_Any (TypeURL msg) (Value msg);
          amount = anyMsgGasCost div DefaultGasMultiplier E;
          ctx1 = ctx\<lparr>Meter := fst (ConsumeGas (Meter ctx) amount ''unpacking AnyMsg''),
                     trace := trace ctx @ [ConsumeGas_call amount ''unpacking AnyMsg'']\<rparr>
      in
        (case snd (ConsumeGas (Meter ctx) amount ''unpacking AnyMsg'') of
           Some p \<Rightarrow> (Panic p, ctx1)
         | None \<Rightarrow>
             (let ctx2 = ctx1\<lparr>trace := trace ctx1 @ [UnpackAny_call codecAny]\<rparr>
              in
                (case UnpackAny unpacker codecAny of
                   Inl err \<Rightarrow>
                     (Done ([], Some (Wrap ErrInvalidMsg
                        (''Cannot unpack proto message with type URL: '' @ TypeURL msg))), ctx2)
                 | Inr sdkMsg \<Rightarrow>
                     (let ctx3 = ctx2\<lparr>trace := trace ctx2 @ [UnpackInterfaces_call sdkMsg]\<rparr>
                      in
                        (case UnpackInterfaces unpacker sdkMsg of
                           Some err \<Rightarrow>
                             (Done ([], Some (Wrap ErrInvalidMsg
                                (''UnpackInterfaces inside msg: '' @ ErrorText E err))), ctx3)
                         | None \<Rightarrow> (Done ([sdkMsg], None), ctx3)))))))"

definition EncodeWasmMsg :: "Env \<Rightarrow> AccAddress \<Rightarrow> WasmMsg \<Rightarrow> encoded" where
  "EncodeWasmMsg E sender msg =
     (case Execute msg of
        Some (ExecuteMsg contractAddr m funds) \<Rightarrow>
          (case ConvertWasmCoinsToSdkCoins E funds of
             Panic p \<Rightarrow> Panic p
           | Done (coins, Some err) \<Rightarrow> Done ([], Some err)
           | Done (coins, None) \<Rightarrow>
               Done ([MsgExecuteContract (AccString E sender) contractAddr m coins], None))
      | None \<Rightarrow>
     (case Instantiate msg of
        Some (InstantiateMsg codeID m funds label admin) \<Rightarrow>
          (case ConvertWasmCoinsToSdkCoins E funds of
             Panic p \<Rightarrow> Panic p
           | Done (coins, Some err) \<Rightarrow> Done ([], Some err)
           | Done (coins, None) \<Rightarrow>
               Done ([MsgInstantiateContract (AccString E sender) codeID label m admin coins], None))
      | None \<Rightarrow>
     (case Instantiate2 msg of
        Some (Instantiate2Msg codeID m funds label admin salt) \<Rightarrow>
          (case ConvertWasmCoinsToSdkCoins E funds of
             Panic p \<Rightarrow> Panic p
           | Done (coins, Some err) \<Rightarrow> Done ([], Some err)
           | Done (coins, None) \<Rightarrow>
               Done ([MsgInstantiateContract2 (AccString E sender) admin codeID label m coins
                        salt False], None))
      | None \<Rightarrow>
     (case Migrate msg of
        Some (MigrateMsg contractAddr newCodeID m) \<Rightarrow>
          Done ([MsgMigrateContract (AccString E sender) contractAddr newCodeID m], None)
      | None \<Rightarrow>
     (case ClearAdmin msg of
        Some (ClearAdminMsg contractAddr) \<Rightarrow>
          Done ([MsgClearAdmin (AccString E sender) contractAddr], None)
      | None \<Rightarrow>
     (case UpdateAdmin msg of
        Some (UpdateAdminMsg contractAddr admin) \<Rightarrow>
          Done ([MsgUpdateAdmin (AccString E sender) contractAddr admin], None)
      | None \<Rightarrow> Done ([], Some (Wrap ErrUnknownMsg ''unknown variant of Wasm''))))))))"

definition EncodeIBCMsg :: "Env \<Rightarrow> ICS20TransferPortSource \<Rightarrow> IBCEncoder" where
  "EncodeIBCMsg E portSource ctx sender contractIBCPortID msg =
     (case CloseChannel msg of
        Some (CloseChannelMsg channelID) \<Rightarrow>
          (Done ([MsgChannelCloseInit (PortIDForContract E sender) channelID (AccString E sender)],
             None), ctx)
      | None \<Rightarrow>
     (case Transfer msg of
        Some (TransferMsg channelID toAddress amt (IBCTimeout block timestamp) memo) \<Rightarrow>
          (case ConvertWasmCoinToSdkCoin E amt of
             (amount, Some err) \<Rightarrow> (Done ([], Some (Wrap err ''amount'')), ctx)
           | (amount, None) \<Rightarrow>
               (Done ([MsgTransfer (portSource ctx) channelID amount (AccString E sender) toAddress
                         (ConvertWasmIBCTimeoutHeightToCosmosHeight block) timestamp memo],
                  None), ctx))
      | None \<Rightarrow>
     (case PayPacketFee msg of
        Some fee \<Rightarrow> (Done ([], Some (Wrap ErrUnknownMsg ''pay packet fee not supported'')), ctx)
      | None \<Rightarrow>
     (case PayPacketFeeAsync msg of
        Some fee \<Rightarrow>
          (Done ([], Some (Wrap ErrUnknownMsg ''pay packet fee async not supported'')), ctx)
      | None \<Rightarrow> (Done ([], Some (Wrap ErrUnknownMsg ''unknown variant of IBC'')), ctx)))))"

definition convert_payload :: "IBC2Payload \<Rightarrow> Payload" where
  "convert_payload payload =
     (case payload of
        IBC2Payload sourcePort destinationPort version encoding v \<Rightarrow>
          Payload sourcePort destinationPort version encoding v)"

definition EncodeIBCv2Msg :: "Env \<Rightarrow> AccAddress \<Rightarrow> IBC2Msg \<Rightarrow> encoded" where
  "EncodeIBCv2Msg E sender msg =
     (case SendPacket msg of
        Some (IBC2SendPacketMsg sourceClient payloads timeout) \<Rightarrow>
          Done ([MsgSendPacket sourceClient
                   (to_uint64 (Time_Unix (time_Unix 0 (int64 timeout))))
                   (map convert_payload payloads)
                   (AccString E sender)], None)
      | None \<Rightarrow> Done ([], Some (Wrap ErrUnknownMsg ''unknown variant of IBCv2'')))"

text \<open>\<open>v1.NewMsgVote\<close> and \<open>v1.NewMsgVoteWeighted\<close>: the constructors of the gov module.\<close>

definition NewMsgVote :: "Env \<Rightarrow> AccAddress \<Rightarrow> uint64 \<Rightarrow> VoteOption \<Rightarrow> string \<Rightarrow> sdkMsg" where
  "NewMsgVote E voter proposalID option metadata =
     MsgVote proposalID (AccString E voter) option metadata"

definition NewMsgVoteWeighted ::
  "Env \<Rightarrow> AccAddress \<Rightarrow> uint64 \<Rightarrow> WeightedVoteOption list \<Rightarrow> string \<Rightarrow> sdkMsg" where
  "NewMsgVoteWeighted E voter proposalID options metadata =
     MsgVoteWeighted proposalID (AccString E voter) options metadata"

text \<open>
  The loop over the weighted options, \<open>i\<close> being the index of the head of the list: it
  returns the converted options, or the first error.
\<close>

fun weighted_options_loop ::
  "Env \<Rightarrow> nat \<Rightarrow> WeightedVoteOption_vm list \<Rightarrow> WeightedVoteOption list \<times> error option" where
  "weighted_options_loop E i [] = ([], None)"
| "weighted_options_loop E i (v # vs) =
     (case v of
        WeightedVoteOption_vm opt w \<Rightarrow>
          (case LegacyNewDecFromStr E w of
             Inl err \<Rightarrow> ([], Some (Wrap err (''weight for vote '' @ format_nat (i + 1))))
           | Inr weight \<Rightarrow>
               (case convertVoteOption opt of
                  (voteOption, Some err) \<Rightarrow> ([], Some (Wrap err ''vote option''))
                | (voteOption, None) \<Rightarrow>
                    (case weighted_options_loop E (i + 1) vs of
                       (opts, Some err) \<Rightarrow> ([], Some err)
                     | (opts, None) \<Rightarrow>
                         (WeightedVoteOption voteOption (DecString E weight) # opts, None)))))"

definition EncodeGovMsg :: "Env \<Rightarrow> AccAddress \<Rightarrow> GovMsg \<Rightarrow> encoded" where
  "EncodeGovMsg E sender msg =
     (case Vote msg of
        Some (VoteMsg proposalId option) \<Rightarrow>
          (case convertVoteOption option of
             (voteOption, Some err) \<Rightarrow> Done ([], Some (Wrap err ''vote option''))
           | (voteOption, None) \<Rightarrow> Done ([NewMsgVote E sender proposalId voteOption []], None))
      | None \<Rightarrow>
     (case VoteWeighted msg of
        Some (VoteWeightedMsg proposalId options) \<Rightarrow>
          (case weighted_options_loop E 0 options of
             (opts, Some err) \<Rightarrow> Done ([], Some err)
           | (opts, None) \<Rightarrow> Done ([NewMsgVoteWeighted E sender proposalId opts []], None))
      | None \<Rightarrow> Done ([], Some (Wrap ErrUnknownMsg ''unknown variant of gov''))))"

subsection \<open>The registry: defaults, merge and dispatch\<close>

definition DefaultEncoders :: "Env \<Rightarrow> AnyUnpacker \<Rightarrow> ICS20TransferPortSource \<Rightarrow> MessageEncoders" where
  "DefaultEncoders E unpacker portSource =
     \<lparr> Bank = Some (EncodeBankMsg E),
       Custom = Some NoCustomMsg,
       Distribution = Some (EncodeDistributionMsg E),
       IBC = Some (EncodeIBCMsg E portSource),
       IBC2 = Some (EncodeIBCv2Msg E),
       Staking = Some (EncodeStakingMsg E),
       Any = Some (EncodeAnyMsg E unpacker),
       Wasm = Some (EncodeWasmMsg E),
       Gov = Some (EncodeGovMsg E) \<rparr>"

text \<open>
  \<open>Merge\<close> takes a pointer to the overrides (\<open>o\<close> in the source, \<open>ov\<close> here): \<open>None\<close> is the
  \<open>nil\<close> pointer. The receiver is a copy, updated field by field.
\<close>

definition Merge :: "MessageEncoders \<Rightarrow> MessageEncoders option \<Rightarrow> MessageEncoders" where
  "Merge e overrides =
     (case overrides of
        None \<Rightarrow> e
      | Some ov \<Rightarrow>
          (let e1 = (if Bank ov \<noteq> None then e\<lparr>Bank := Bank ov\<rparr> else e);
               e2 = (if Custom ov \<noteq> None then e1\<lparr>Custom := Custom ov\<rparr> else e1);
               e3 = (if Distribution ov \<noteq> None then e2\<lparr>Distribution := Distribution ov\<rparr> else e2);
               e4 = (if IBC ov \<noteq> None then e3\<lparr>IBC := IBC ov\<rparr> else e3);
               e5 = (if IBC2 ov \<noteq> None then e4\<lparr>IBC2 := IBC2 ov\<rparr> else e4);
               e6 = (if Staking ov \<noteq> None then e5\<lparr>Staking := Staking ov\<rparr> else e5);
               e7 = (if Any ov \<noteq> None then e6\<lparr>Any := Any ov\<rparr> else e6);
               e8 = (if Wasm ov \<noteq> None then e7\<lparr>Wasm := Wasm ov\<rparr> else e7);
               e9 = (if Gov ov \<noteq> None then e8\<lparr>Gov := Gov ov\<rparr> else e8)
           in e9))"

text \<open>
  \<open>Encode\<close>: the switch over the fields of the message, in the order of the source. The
  context is returned as the selected encoder leaves it. The last case calls
  \<open>EncodeGovMsg\<close>, as the source does.
\<close>

definition Encode ::
  "Env \<Rightarrow> MessageEncoders \<Rightarrow> Context \<Rightarrow> AccAddress \<Rightarrow> string \<Rightarrow> CosmosMsg \<Rightarrow> encoded \<times> Context" where
  "Encode E e ctx contractAddr contractIBCPortID msg =
     (case Bank_msg msg of
        Some bank \<Rightarrow>
          (case Bank e of None \<Rightarrow> (nil_func_call, ctx) | Some f \<Rightarrow> (f contractAddr bank, ctx))
      | None \<Rightarrow>
     (case Custom_msg msg of
        Some custom \<Rightarrow>
          (case Custom e of None \<Rightarrow> (nil_func_call, ctx) | Some f \<Rightarrow> (f contractAddr custom, ctx))
      | None \<Rightarrow>
     (case Distribution_msg msg of
        Some distribution \<Rightarrow>
          (case Distribution e of
             None \<Rightarrow> (nil_func_call, ctx)
           | Some f \<Rightarrow> (f contractAddr distribution, ctx))
      | None \<Rightarrow>
     (case IBC_msg msg of
        Some ibc \<Rightarrow>
          (case IBC e of
             None \<Rightarrow> (nil_func_call, ctx)
           | Some f \<Rightarrow> f ctx contractAddr contractIBCPortID ibc)
      | None \<Rightarrow>
     (case IBC2_msg msg of
        Some ibc2 \<Rightarrow>
          (case IBC2 e of None \<Rightarrow> (nil_func_call, ctx) | Some f \<Rightarrow> (f contractAddr ibc2, ctx))
      | None \<Rightarrow>
     (case Staking_msg msg of
        Some staking \<Rightarrow>
          (case Staking e of None \<Rightarrow> (nil_func_call, ctx) | Some f \<Rightarrow> (f contractAddr staking, ctx))
      | None \<Rightarrow>
     (case Any_msg msg of
        Some any \<Rightarrow>
          (case Any e of None \<Rightarrow> (nil_func_call, ctx) | Some f \<Rightarrow> f ctx contractAddr any)
      | None \<Rightarrow>
     (case Wasm_msg msg of
        Some wasm \<Rightarrow>
          (case Wasm e of None \<Rightarrow> (nil_func_call, ctx) | Some f \<Rightarrow> (f contractAddr wasm, ctx))
      | None \<Rightarrow>
     (case Gov_msg msg of
        Some gov \<Rightarrow> (EncodeGovMsg E contractAddr gov, ctx)
      | None \<Rightarrow>
          (Done ([], Some (Wrap ErrUnknownMsg ''unknown variant of Wasm'')), ctx))))))))))"

subsection \<open>Example values\<close>

text \<open>
  A concrete environment on which the model is evaluated in the examples below:
  \<open>big.Int.SetString(s, 0)\<close> of package \<open>math/big\<close>, the default denomination rule of
  the SDK (a letter followed by 2 to 127 letters, digits or one of \<open>/:._-\<close>), the default
  gas multiplier, and fixed texts for addresses and ports.

  \<open>SetString\<close> with base 0 reads an optional sign \<open>+\<close> or \<open>-\<close>, an optional base prefix
  (\<open>0b\<close>, \<open>0o\<close>, \<open>0x\<close>, or a leading \<open>0\<close> for octal) and digits of the base, between
  which single underscores may stand; the whole text must be read. So \<open>010\<close> is 8,
  \<open>0x10\<close> is 16, \<open>1_000\<close> is 1000, and \<open>08\<close>, \<open>1e3\<close> and the empty text are no numbers.
\<close>

text \<open>
  The digit value of a character as \<open>nat.scan\<close> takes it: \<open>0\<close> to \<open>9\<close>, then the
  letters of either case from 10 on, and \<open>MaxBase + 1 = 63\<close> for any other character.
\<close>

fun char_index :: "char \<Rightarrow> string \<Rightarrow> nat \<Rightarrow> nat option" where
  "char_index ch [] i = None"
| "char_index ch (x # xs) i = (if ch = x then Some i else char_index ch xs (i + 1))"

definition digit_value :: "char \<Rightarrow> nat" where
  "digit_value ch =
     (case char_index ch ''0123456789abcdefghijklmnopqrstuvwxyz'' 0 of
        Some d1 \<Rightarrow> d1
      | None \<Rightarrow>
          (case char_index ch ''ABCDEFGHIJKLMNOPQRSTUVWXYZ'' 10 of
             Some d1 \<Rightarrow> d1
           | None \<Rightarrow> 63))"

text \<open>
  The loop of \<open>nat.scan\<close> for base 0. \<open>prev\<close> is the kind of the character seen last:
  an underscore, a digit (or the leading \<open>0\<close>), or anything else. An underscore is a
  valid separator only after a digit; a character that is not a digit of the base \<open>b\<close>
  ends the loop and is left unread. The result is \<open>prev\<close>, the flag \<open>invalSep\<close>, the count
  of digits, the number read and the unread rest.
\<close>

datatype prev_char = prev_separator | prev_digit | prev_other

fun scan_digits ::
  "nat \<Rightarrow> prev_char \<Rightarrow> bool \<Rightarrow> nat \<Rightarrow> nat \<Rightarrow> string
     \<Rightarrow> prev_char \<times> bool \<times> nat \<times> nat \<times> string" where
  "scan_digits b prev invalSep cnt z [] = (prev, invalSep, cnt, z, [])"
| "scan_digits b prev invalSep cnt z (ch # cs) =
     (if ch = CHR ''_'' then
        scan_digits b prev_separator (invalSep \<or> prev \<noteq> prev_digit) cnt z cs
      else if b \<le> digit_value ch then (prev, invalSep, cnt, z, ch # cs)
      else scan_digits b prev_digit invalSep (cnt + 1) (z * b + digit_value ch) cs)"

text \<open>
  The end of \<open>nat.scan\<close>: a misplaced or trailing separator is an error; so is a number
  with no digit, unless there was only the octal prefix \<open>0\<close>, which reads as zero.
\<close>

definition finish_scan ::
  "bool \<Rightarrow> prev_char \<times> bool \<times> nat \<times> nat \<times> string \<Rightarrow> (nat \<times> string) option" where
  "finish_scan octal r =
     (case r of
        (prev, invalSep, cnt, z, rest) \<Rightarrow>
          if invalSep \<or> prev = prev_separator then None
          else if cnt = 0 then (if octal then Some (0, rest) else None)
          else Some (z, rest))"

text \<open>
  The start of \<open>nat.scan\<close> for base 0: the base is 10 unless the text begins with \<open>0\<close>;
  then \<open>0b\<close>, \<open>0o\<close> and \<open>0x\<close> (in either case) select the bases 2, 8 and 16, and any
  other character after the \<open>0\<close> selects base 8 and is itself scanned. The text \<open>0\<close> alone
  is one digit of base 10.
\<close>

definition nat_scan :: "string \<Rightarrow> (nat \<times> string) option" where
  "nat_scan s =
     (case s of
        [] \<Rightarrow> finish_scan False (scan_digits 10 prev_other False 0 0 [])
      | ch # cs \<Rightarrow>
          if ch = CHR ''0'' then
            (case cs of
               [] \<Rightarrow> finish_scan False (scan_digits 10 prev_digit False 1 0 [])
             | ch2 # cs2 \<Rightarrow>
                 if ch2 = CHR ''b'' \<or> ch2 = CHR ''B'' then
                   finish_scan False (scan_digits 2 prev_digit False 0 0 cs2)
                 else if ch2 = CHR ''o'' \<or> ch2 = CHR ''O'' then
                   finish_scan False (scan_digits 8 prev_digit False 0 0 cs2)
                 else if ch2 = CHR ''x'' \<or> ch2 = CHR ''X'' then
                   finish_scan False (scan_digits 16 prev_digit False 0 0 cs2)
                 else finish_scan True (scan_digits 8 prev_digit False 0 0 cs))
          else finish_scan False (scan_digits 10 prev_other False 0 0 s))"

text \<open>
  \<open>SetString(s, 0)\<close>: an optional sign (\<open>scanSign\<close>; the empty text is an error), the
  number, and nothing after it.
\<close>

definition big_SetString :: "string \<Rightarrow> int option" where
  "big_SetString s =
     (case s of
        [] \<Rightarrow> None
      | ch # cs \<Rightarrow>
          (case nat_scan (if ch = CHR ''-'' \<or> ch = CHR ''+'' then cs else s) of
             None \<Rightarrow> None
           | Some (z, rest) \<Rightarrow>
               if rest \<noteq> [] then None
               else if ch = CHR ''-'' then Some (- int z)
               else Some (int z)))"

definition default_ValidateDenom :: "string \<Rightarrow> error option" where
  "default_ValidateDenom denom =
     (if 3 \<le> length denom \<and> length denom \<le> 128
         \<and> hd denom \<in> set ''abcdefghijklmnopqrstuvwxyzABCDEFGHIJKLMNOPQRSTUVWXYZ''
         \<and> set (tl denom) \<subseteq>
             set ''abcdefghijklmnopqrstuvwxyzABCDEFGHIJKLMNOPQRSTUVWXYZ0123456789/:._-''
      then None
      else Some (LibError (''invalid denom: '' @ denom)))"

definition example_Env :: Env where
  "example_Env =
     \<lparr> DefaultGasMultiplier = 140000,
       PortIDForContract = (\<lambda>addr. ''wasm.wasm1contract''),
       AccString = (\<lambda>addr. ''wasm1contract''),
       SetString = big_SetString,
       ValidateDenom = default_ValidateDenom,
       LegacyNewDecFromStr = (\<lambda>s. if s = ''0.7'' then Inr 700000000000000000
                                   else if s = ''0.3'' then Inr 300000000000000000
                                   else Inl (LibError ''failed to set decimal string'')),
       DecString = (\<lambda>d. if d = 700000000000000000 then ''0.700000000000000000''
                         else if d = 300000000000000000 then ''0.300000000000000000''
                         else ''0.000000000000000000''),
       ErrorText = (\<lambda>err. ''error'') \<rparr>"

definition example_unpacker :: AnyUnpacker where
  "example_unpacker =
     \<lparr> UnpackAny = (\<lambda>a. if TypeUrl a = ''/cosmos.gov.v1.MsgCancelProposal''
                          then Inr (ProtoMsg (TypeUrl a) (AnyValue a))
                          else Inl (LibError ''no concrete type registered for type URL'')),
       UnpackInterfaces = (\<lambda>m. None) \<rparr>"

definition example_portSource :: ICS20TransferPortSource where
  "example_portSource ctx = ''transfer''"

definition example_ctx :: Context where
  "example_ctx = \<lparr> Meter = GasMeter (Some 1000) 0, trace = [] \<rparr>"

definition example_sender :: AccAddress where
  "example_sender = [1, 2, 3]"

definition no_msg :: CosmosMsg where
  "no_msg =
     \<lparr> Bank_msg = None, Custom_msg = None, Distribution_msg = None, IBC_msg = None,
       IBC2_msg = None, Staking_msg = None, Any_msg = None, Wasm_msg = None, Gov_msg = None \<rparr>"

definition no_overrides :: MessageEncoders where
  "no_overrides =
     \<lparr> Bank = None, Custom = None, Distribution = None, IBC = None, IBC2 = None,
       Staking = None, Any = None, Wasm = None, Gov = None \<rparr>"

definition no_ibc_msg :: IBCMsg where
  "no_ibc_msg = \<lparr> Transfer = None, CloseChannel = None, PayPacketFee = None, PayPacketFeeAsync = None \<rparr>"

text \<open>A vote Yes on proposal 7, and a governance encoder of a chain that drops every vote.\<close>

definition vote_yes_7 :: GovMsg where
  "vote_yes_7 = \<lparr> Vote = Some (VoteMsg 7 Yes), VoteWeighted = None \<rparr>"

definition drop_votes :: GovEncoder where
  "drop_votes sender msg = Done ([], None)"

subsection \<open>Reading a message and a trace\<close>

text \<open>
  The kinds of a \<open>CosmosMsg\<close>, and the kinds that a message populates, listed in the
  order in which \<open>Encode\<close> inspects them.
\<close>

datatype kind =
  BankKind | CustomKind | DistributionKind | IBCKind | IBC2Kind | StakingKind | AnyKind
  | WasmKind | GovKind

definition populated :: "CosmosMsg \<Rightarrow> kind list" where
  "populated msg =
     (if Bank_msg msg \<noteq> None then [BankKind] else []) @
     (if Custom_msg msg \<noteq> None then [CustomKind] else []) @
     (if Distribution_msg msg \<noteq> None then [DistributionKind] else []) @
     (if IBC_msg msg \<noteq> None then [IBCKind] else []) @
     (if IBC2_msg msg \<noteq> None then [IBC2Kind] else []) @
     (if Staking_msg msg \<noteq> None then [StakingKind] else []) @
     (if Any_msg msg \<noteq> None then [AnyKind] else []) @
     (if Wasm_msg msg \<noteq> None then [WasmKind] else []) @
     (if Gov_msg msg \<noteq> None then [GovKind] else [])"

text \<open>Calling a slot of the registry: a \<open>nil\<close> slot panics.\<close>

definition call_slot :: "('a \<Rightarrow> encoded) option \<Rightarrow> 'a \<Rightarrow> Context \<Rightarrow> encoded \<times> Context" where
  "call_slot slot payload ctx =
     (case slot of None \<Rightarrow> (nil_func_call, ctx) | Some f \<Rightarrow> (f payload, ctx))"

definition call_ctx_slot ::
  "(Context \<Rightarrow> 'a \<Rightarrow> encoded \<times> Context) option \<Rightarrow> 'a \<Rightarrow> Context \<Rightarrow> encoded \<times> Context" where
  "call_ctx_slot slot payload ctx =
     (case slot of None \<Rightarrow> (nil_func_call, ctx) | Some f \<Rightarrow> f ctx payload)"

text \<open>
  The dispatch of one kind, stated apart from the switch of \<open>Encode\<close>: the encoder that
  answers for the kind, applied to the payload of that kind alone. For every kind but the
  last it is the slot of the registry; for \<open>GovKind\<close> it is \<open>EncodeGovMsg\<close>.
\<close>

definition dispatch ::
  "Env \<Rightarrow> MessageEncoders \<Rightarrow> Context \<Rightarrow> AccAddress \<Rightarrow> string \<Rightarrow> kind \<Rightarrow> CosmosMsg
     \<Rightarrow> encoded \<times> Context" where
  "dispatch E e ctx contractAddr contractIBCPortID k msg =
     (case k of
        BankKind \<Rightarrow>
          call_slot (map_option (\<lambda>f. f contractAddr) (Bank e)) (the (Bank_msg msg)) ctx
      | CustomKind \<Rightarrow>
          call_slot (map_option (\<lambda>f. f contractAddr) (Custom e)) (the (Custom_msg msg)) ctx
      | DistributionKind \<Rightarrow>
          call_slot (map_option (\<lambda>f. f contractAddr) (Distribution e))
            (the (Distribution_msg msg)) ctx
      | IBCKind \<Rightarrow>
          call_ctx_slot (map_option (\<lambda>f c. f c contractAddr contractIBCPortID) (IBC e))
            (the (IBC_msg msg)) ctx
      | IBC2Kind \<Rightarrow>
          call_slot (map_option (\<lambda>f. f contractAddr) (IBC2 e)) (the (IBC2_msg msg)) ctx
      | StakingKind \<Rightarrow>
          call_slot (map_option (\<lambda>f. f contractAddr) (Staking e)) (the (Staking_msg msg)) ctx
      | AnyKind \<Rightarrow>
          call_ctx_slot (map_option (\<lambda>f c. f c contractAddr) (Any e)) (the (Any_msg msg)) ctx
      | WasmKind \<Rightarrow>
          call_slot (map_option (\<lambda>f. f contractAddr) (Wasm e)) (the (Wasm_msg msg)) ctx
      | GovKind \<Rightarrow> (EncodeGovMsg E contractAddr (the (Gov_msg msg)), ctx))"

text \<open>Whether an entry of the trace is a charge on the gas meter.\<close>

fun is_ConsumeGas_call :: "call \<Rightarrow> bool" where
  "is_ConsumeGas_call (ConsumeGas_call amount descriptor) = True"
| "is_ConsumeGas_call c = False"

text \<open>The calls to the codec that follow the charge, by the outcome of \<open>UnpackAny\<close>.\<close>

definition decode_calls :: "AnyUnpacker \<Rightarrow> codec_Any \<Rightarrow> call list" where
  "decode_calls unpacker codecAny =
     UnpackAny_call codecAny #
       (case UnpackAny unpacker codecAny of
          Inl err \<Rightarrow> []
        | Inr sdkMsg \<Rightarrow> [UnpackInterfaces_call sdkMsg])"

subsection \<open>Reading coin lists\<close>

text \<open>
  What the statements about the coin conversion speak of. For the coins of the VM:
  the integer that \<open>SetString\<close> reads from the amount of a coin, the total of a
  denomination over a list, a coin that the single-coin conversion accepts (its denomination
  passes the rule of the chain, its amount reads as a non-negative integer of at most
  \<open>MaxBitLen\<close> bits), and an amount text that is malformed (it does not read as a number,
  or it reads as a negative one).
\<close>

definition parsed_amount :: "Env \<Rightarrow> WasmCoin \<Rightarrow> int" where
  "parsed_amount E c = (case SetString E (wAmount c) of None \<Rightarrow> 0 | Some i \<Rightarrow> i)"

definition denom_total :: "Env \<Rightarrow> WasmCoin list \<Rightarrow> string \<Rightarrow> int" where
  "denom_total E coins denom =
     sum_list (map (parsed_amount E) (filter (\<lambda>c. wDenom c = denom) coins))"

definition valid_coin :: "Env \<Rightarrow> WasmCoin \<Rightarrow> bool" where
  "valid_coin E c =
     (ValidateDenom E (wDenom c) = None
      \<and> (case SetString E (wAmount c) of None \<Rightarrow> False | Some i \<Rightarrow> 0 \<le> i \<and> i < 2 ^ MaxBitLen))"

definition malformed_amount :: "Env \<Rightarrow> string \<Rightarrow> bool" where
  "malformed_amount E s = (case SetString E s of None \<Rightarrow> True | Some i \<Rightarrow> i < 0)"

text \<open>
  For the coins of the SDK: the amount of a coin as an integer, the total of a
  denomination over a list, and the form of the accumulator \<open>toSend\<close> between two rounds
  of the loop (denominations ascending and distinct, amounts positive and within
  \<open>MaxBitLen\<close> bits).
\<close>

definition amount_of :: "Coin \<Rightarrow> int" where
  "amount_of c = (case Amount c of None \<Rightarrow> 0 | Some a \<Rightarrow> a)"

definition coin_total :: "Coins \<Rightarrow> string \<Rightarrow> int" where
  "coin_total coins denom = sum_list (map amount_of (filter (\<lambda>c. Denom c = denom) coins))"

definition canonical :: "Coins \<Rightarrow> bool" where
  "canonical coins =
     (sorted (map Denom coins) \<and> distinct (map Denom coins)
      \<and> (\<forall>c \<in> set coins.
            case Amount c of None \<Rightarrow> False | Some a \<Rightarrow> 0 < a \<and> a < 2 ^ MaxBitLen))"

text \<open>
  The list that \<open>safeAdd\<close> coalesces from a list of distinct denominations and one more
  coin, before the sort: the amount is added to the coin of the same denomination, or the
  coin is appended when its denomination is new and its amount is not zero.
\<close>

fun merge_coin :: "Coins \<Rightarrow> Coin \<Rightarrow> Coins" where
  "merge_coin [] c = (if amount_of c = 0 then [] else [c])"
| "merge_coin (x # xs) c =
     (if Denom x = Denom c then Coin (Denom x) (Some (amount_of x + amount_of c)) # xs
      else x # merge_coin xs c)"

text \<open>Coin lists and messages of the examples.\<close>

definition example_coins :: "WasmCoin list" where
  "example_coins =
     [WasmCoin ''uatom'' ''5'', WasmCoin ''abc'' ''7'', WasmCoin ''uatom'' ''10'',
      WasmCoin ''zzz'' ''0'']"

definition two_pow_255 :: string where
  "two_pow_255 =
     ''57896044618658097711785492504343953926634992332820282019728792003956564819968''"

definition no_wasm_msg :: WasmMsg where
  "no_wasm_msg =
     \<lparr> Execute = None, Instantiate = None, Instantiate2 = None, Migrate = None,
       UpdateAdmin = None, ClearAdmin = None \<rparr>"

definition example_registry :: MessageEncoders where
  "example_registry = DefaultEncoders example_Env example_unpacker example_portSource"

section \<open>Properties\<close>

lemmas example_Env_defs =
  example_Env_def big_SetString_def nat_scan_def finish_scan_def digit_value_def
  default_ValidateDenom_def

lemmas coin_defs =
  ConvertWasmCoinsToSdkCoins_def ConvertWasmCoinToSdkCoin_def NewIntFromString_def
  BitLen_exceeds_def MaxBitLen_def Coin_Validate_def Coins_Add_def safeAdd_def uniqCoins_def
  Coin_Add_def Int_Add_def Coin_IsZero_def Coins_Sort_def

subsection \<open>The number parser\<close>

text \<open>
  \<open>big_SetString\<close> on texts that a decimal reading would take otherwise: a leading \<open>0\<close>
  is the octal prefix, \<open>0b\<close>, \<open>0o\<close> and \<open>0x\<close> are prefixes, a sign \<open>+\<close> and separators
  between digits are read, and the empty text, a lone sign, a prefix with no digit, a
  misplaced separator and an exponent are refused.
\<close>

lemma big_SetString_base_0:
  "big_SetString ''010'' = Some 8"
  "big_SetString ''08'' = None"
  "big_SetString ''0x10'' = Some 16"
  "big_SetString ''0XfF'' = Some 255"
  "big_SetString ''0b101'' = Some 5"
  "big_SetString ''0o17'' = Some 15"
  "big_SetString ''+5'' = Some 5"
  "big_SetString ''-5'' = Some (- 5)"
  "big_SetString ''1_000'' = Some 1000"
  "big_SetString ''0_7'' = Some 7"
  "big_SetString ''0'' = Some 0"
  "big_SetString ''-0'' = Some 0"
  "big_SetString ''00'' = Some 0"
  "big_SetString [] = None"
  "big_SetString ''-'' = None"
  "big_SetString ''0x'' = None"
  "big_SetString ''_1'' = None"
  "big_SetString ''1_'' = None"
  "big_SetString ''1__0'' = None"
  "big_SetString ''0_'' = None"
  "big_SetString ''1e3'' = None"
  "big_SetString ''five'' = None"
  "big_SetString '' 5'' = None"
  by (simp_all add: big_SetString_def nat_scan_def finish_scan_def digit_value_def)

subsection \<open>Merging registries\<close>

text \<open>
  C5. For every base registry \<open>e\<close> and every override record \<open>ov\<close>, each kind of
  \<open>Merge e (Some ov)\<close> carries the encoder of \<open>ov\<close> when the slot of \<open>ov\<close> is not empty,
  and the encoder of \<open>e\<close>, unchanged, otherwise. Merging with the \<open>nil\<close> pointer or with
  the record whose slots are all empty returns the base registry.
\<close>

theorem Merge_replaces_exactly_the_supplied_kinds:
  "Merge e None = e
   \<and> Merge e (Some no_overrides) = e
   \<and> Bank (Merge e (Some ov)) = (if Bank ov \<noteq> None then Bank ov else Bank e)
   \<and> Custom (Merge e (Some ov)) = (if Custom ov \<noteq> None then Custom ov else Custom e)
   \<and> Distribution (Merge e (Some ov)) =
        (if Distribution ov \<noteq> None then Distribution ov else Distribution e)
   \<and> IBC (Merge e (Some ov)) = (if IBC ov \<noteq> None then IBC ov else IBC e)
   \<and> IBC2 (Merge e (Some ov)) = (if IBC2 ov \<noteq> None then IBC2 ov else IBC2 e)
   \<and> Staking (Merge e (Some ov)) = (if Staking ov \<noteq> None then Staking ov else Staking e)
   \<and> Any (Merge e (Some ov)) = (if Any ov \<noteq> None then Any ov else Any e)
   \<and> Wasm (Merge e (Some ov)) = (if Wasm ov \<noteq> None then Wasm ov else Wasm e)
   \<and> Gov (Merge e (Some ov)) = (if Gov ov \<noteq> None then Gov ov else Gov e)"
  by (simp add: Merge_def no_overrides_def Let_def)

subsection \<open>Dispatch\<close>

text \<open>
  The switch of \<open>Encode\<close>, one case at a time: when the fields inspected before a kind
  are empty and the field of the kind is populated, that kind heads the list of populated
  kinds and \<open>Encode\<close> is the dispatch of that kind.
\<close>

lemma populated_Nil:
  "populated msg = [] \<longleftrightarrow>
     Bank_msg msg = None \<and> Custom_msg msg = None \<and> Distribution_msg msg = None
     \<and> IBC_msg msg = None \<and> IBC2_msg msg = None \<and> Staking_msg msg = None
     \<and> Any_msg msg = None \<and> Wasm_msg msg = None \<and> Gov_msg msg = None"
  by (simp add: populated_def)

lemmas dispatch_defs = populated_def Encode_def dispatch_def call_slot_def call_ctx_slot_def

lemma first_Bank:
  "Bank_msg msg = Some m \<Longrightarrow>
     hd (populated msg) = BankKind
     \<and> Encode E e ctx a p msg = dispatch E e ctx a p BankKind msg"
  by (simp add: dispatch_defs split: option.split)

lemma first_Custom:
  "Bank_msg msg = None \<Longrightarrow> Custom_msg msg = Some m \<Longrightarrow>
     hd (populated msg) = CustomKind
     \<and> Encode E e ctx a p msg = dispatch E e ctx a p CustomKind msg"
  by (simp add: dispatch_defs split: option.split)

lemma first_Distribution:
  "Bank_msg msg = None \<Longrightarrow> Custom_msg msg = None \<Longrightarrow> Distribution_msg msg = Some m \<Longrightarrow>
     hd (populated msg) = DistributionKind
     \<and> Encode E e ctx a p msg = dispatch E e ctx a p DistributionKind msg"
  by (simp add: dispatch_defs split: option.split)

lemma first_IBC:
  "Bank_msg msg = None \<Longrightarrow> Custom_msg msg = None \<Longrightarrow> Distribution_msg msg = None \<Longrightarrow>
   IBC_msg msg = Some m \<Longrightarrow>
     hd (populated msg) = IBCKind
     \<and> Encode E e ctx a p msg = dispatch E e ctx a p IBCKind msg"
  by (simp add: dispatch_defs split: option.split)

lemma first_IBC2:
  "Bank_msg msg = None \<Longrightarrow> Custom_msg msg = None \<Longrightarrow> Distribution_msg msg = None \<Longrightarrow>
   IBC_msg msg = None \<Longrightarrow> IBC2_msg msg = Some m \<Longrightarrow>
     hd (populated msg) = IBC2Kind
     \<and> Encode E e ctx a p msg = dispatch E e ctx a p IBC2Kind msg"
  by (simp add: dispatch_defs split: option.split)

lemma first_Staking:
  "Bank_msg msg = None \<Longrightarrow> Custom_msg msg = None \<Longrightarrow> Distribution_msg msg = None \<Longrightarrow>
   IBC_msg msg = None \<Longrightarrow> IBC2_msg msg = None \<Longrightarrow> Staking_msg msg = Some m \<Longrightarrow>
     hd (populated msg) = StakingKind
     \<and> Encode E e ctx a p msg = dispatch E e ctx a p StakingKind msg"
  by (simp add: dispatch_defs split: option.split)

lemma first_Any:
  "Bank_msg msg = None \<Longrightarrow> Custom_msg msg = None \<Longrightarrow> Distribution_msg msg = None \<Longrightarrow>
   IBC_msg msg = None \<Longrightarrow> IBC2_msg msg = None \<Longrightarrow> Staking_msg msg = None \<Longrightarrow>
   Any_msg msg = Some m \<Longrightarrow>
     hd (populated msg) = AnyKind
     \<and> Encode E e ctx a p msg = dispatch E e ctx a p AnyKind msg"
  by (simp add: dispatch_defs split: option.split)

lemma first_Wasm:
  "Bank_msg msg = None \<Longrightarrow> Custom_msg msg = None \<Longrightarrow> Distribution_msg msg = None \<Longrightarrow>
   IBC_msg msg = None \<Longrightarrow> IBC2_msg msg = None \<Longrightarrow> Staking_msg msg = None \<Longrightarrow>
   Any_msg msg = None \<Longrightarrow> Wasm_msg msg = Some m \<Longrightarrow>
     hd (populated msg) = WasmKind
     \<and> Encode E e ctx a p msg = dispatch E e ctx a p WasmKind msg"
  by (simp add: dispatch_defs split: option.split)

lemma first_Gov:
  "Bank_msg msg = None \<Longrightarrow> Custom_msg msg = None \<Longrightarrow> Distribution_msg msg = None \<Longrightarrow>
   IBC_msg msg = None \<Longrightarrow> IBC2_msg msg = None \<Longrightarrow> Staking_msg msg = None \<Longrightarrow>
   Any_msg msg = None \<Longrightarrow> Wasm_msg msg = None \<Longrightarrow> Gov_msg msg = Some m \<Longrightarrow>
     hd (populated msg) = GovKind
     \<and> Encode E e ctx a p msg = dispatch E e ctx a p GovKind msg"
  by (simp add: dispatch_defs split: option.split)

lemma Encode_dispatch:
  assumes "populated msg = k # ks"
  shows "Encode E e ctx a p msg = dispatch E e ctx a p k msg"
proof -
  have k: "k = hd (populated msg)"
    using assms by simp
  consider
      (Bank) "Bank_msg msg \<noteq> None"
    | (Custom) "Bank_msg msg = None" "Custom_msg msg \<noteq> None"
    | (Distribution) "Bank_msg msg = None" "Custom_msg msg = None"
        "Distribution_msg msg \<noteq> None"
    | (IBC) "Bank_msg msg = None" "Custom_msg msg = None" "Distribution_msg msg = None"
        "IBC_msg msg \<noteq> None"
    | (IBC2) "Bank_msg msg = None" "Custom_msg msg = None" "Distribution_msg msg = None"
        "IBC_msg msg = None" "IBC2_msg msg \<noteq> None"
    | (Staking) "Bank_msg msg = None" "Custom_msg msg = None" "Distribution_msg msg = None"
        "IBC_msg msg = None" "IBC2_msg msg = None" "Staking_msg msg \<noteq> None"
    | (Any) "Bank_msg msg = None" "Custom_msg msg = None" "Distribution_msg msg = None"
        "IBC_msg msg = None" "IBC2_msg msg = None" "Staking_msg msg = None"
        "Any_msg msg \<noteq> None"
    | (Wasm) "Bank_msg msg = None" "Custom_msg msg = None" "Distribution_msg msg = None"
        "IBC_msg msg = None" "IBC2_msg msg = None" "Staking_msg msg = None"
        "Any_msg msg = None" "Wasm_msg msg \<noteq> None"
    | (Gov) "Bank_msg msg = None" "Custom_msg msg = None" "Distribution_msg msg = None"
        "IBC_msg msg = None" "IBC2_msg msg = None" "Staking_msg msg = None"
        "Any_msg msg = None" "Wasm_msg msg = None" "Gov_msg msg \<noteq> None"
    | (Nothing) "Bank_msg msg = None" "Custom_msg msg = None" "Distribution_msg msg = None"
        "IBC_msg msg = None" "IBC2_msg msg = None" "Staking_msg msg = None"
        "Any_msg msg = None" "Wasm_msg msg = None" "Gov_msg msg = None"
    by blast
  then show ?thesis
  proof cases
    case Bank
    then show ?thesis
      using first_Bank [of msg _ E e ctx a p] k by fastforce
  next
    case Custom
    then show ?thesis
      using first_Custom [of msg _ E e ctx a p] k by fastforce
  next
    case Distribution
    then show ?thesis
      using first_Distribution [of msg _ E e ctx a p] k by fastforce
  next
    case IBC
    then show ?thesis
      using first_IBC [of msg _ E e ctx a p] k by fastforce
  next
    case IBC2
    then show ?thesis
      using first_IBC2 [of msg _ E e ctx a p] k by fastforce
  next
    case Staking
    then show ?thesis
      using first_Staking [of msg _ E e ctx a p] k by fastforce
  next
    case Any
    then show ?thesis
      using first_Any [of msg _ E e ctx a p] k by fastforce
  next
    case Wasm
    then show ?thesis
      using first_Wasm [of msg _ E e ctx a p] k by fastforce
  next
    case Gov
    then show ?thesis
      using first_Gov [of msg _ E e ctx a p] k by fastforce
  next
    case Nothing
    then have "populated msg = []"
      by (simp add: populated_Nil)
    with assms show ?thesis
      by simp
  qed
qed

text \<open>
  C10, as the code has it. A message with no populated variant yields the error of
  \<open>Encode\<close> itself, \<open>ErrUnknownMsg\<close> wrapped with "unknown variant of Wasm". For a message
  with one or more populated variants, \<open>Encode\<close> reports no error of its own: it returns
  what the encoder of the first populated kind, in the order Bank, Custom, Distribution, IBC,
  IBC2, Staking, Any, Wasm, Gov, returns on the payload of that kind, whatever the other
  fields hold; that result may itself be an error.
\<close>

theorem Encode_dispatches_the_first_populated_variant:
  "(populated msg = [] \<longrightarrow>
      Encode E e ctx contractAddr contractIBCPortID msg =
        (Done ([], Some (Wrap ErrUnknownMsg ''unknown variant of Wasm'')), ctx))
   \<and> (\<forall>k ks. populated msg = k # ks \<longrightarrow>
        Encode E e ctx contractAddr contractIBCPortID msg =
          dispatch E e ctx contractAddr contractIBCPortID k msg)"
  by (simp add: Encode_dispatch) (simp add: populated_Nil Encode_def)

text \<open>
  An instance: a message that populates both a bank send of no coins and a vote is
  dispatched to the bank encoder, which returns no message and no error; the vote is
  ignored. The message with no variant yields the error.
\<close>

theorem Encode_dispatches_the_first_populated_variant_witness:
  "Encode example_Env example_registry example_ctx example_sender ''wasm.wasm1contract''
     (no_msg\<lparr>Bank_msg := Some \<lparr>Send = Some (SendMsg ''wasm1dest'' [])\<rparr>,
             Gov_msg := Some vote_yes_7\<rparr>)
     = (Done ([], None), example_ctx)
   \<and> Encode example_Env example_registry example_ctx example_sender ''wasm.wasm1contract'' no_msg
     = (Done ([], Some (Wrap ErrUnknownMsg ''unknown variant of Wasm'')), example_ctx)"
proof -
  let ?msg = "no_msg\<lparr>Bank_msg := Some \<lparr>Send = Some (SendMsg ''wasm1dest'' [])\<rparr>,
                     Gov_msg := Some vote_yes_7\<rparr>"
  have two: "populated ?msg = [BankKind, GovKind]"
    by (simp add: populated_def no_msg_def)
  have none: "populated no_msg = []"
    by (simp add: populated_def no_msg_def)
  have bank: "dispatch example_Env example_registry example_ctx example_sender
      ''wasm.wasm1contract'' BankKind ?msg = (Done ([], None), example_ctx)"
    by (simp add: dispatch_def call_slot_def example_registry_def DefaultEncoders_def
        EncodeBankMsg_def no_msg_def)
  show ?thesis
    using Encode_dispatches_the_first_populated_variant
        [of ?msg example_Env example_registry example_ctx example_sender "''wasm.wasm1contract''"]
      Encode_dispatches_the_first_populated_variant
        [of no_msg example_Env example_registry example_ctx example_sender "''wasm.wasm1contract''"]
      two none bank
    by simp
qed

text \<open>
  C10 as stated fails. With the default registry, a message that populates two
  variants, a custom payload and a vote, is answered with an error, and the error is of the
  kind \<open>ErrUnknownMsg\<close>, although the message populates variants. A message that populates
  the single variant \<open>Wasm\<close>, with no sub-variant, is answered with the very error of the
  message with no variant.
\<close>

theorem Encode_reports_encoder_errors_counterexample:
  "populated (no_msg\<lparr>Custom_msg := Some [], Gov_msg := Some vote_yes_7\<rparr>)
     = [CustomKind, GovKind]
   \<and> fst (Encode example_Env example_registry example_ctx example_sender ''wasm.wasm1contract''
        (no_msg\<lparr>Custom_msg := Some [], Gov_msg := Some vote_yes_7\<rparr>))
     = Done ([], Some (Wrap ErrUnknownMsg ''custom variant not supported''))
   \<and> populated (no_msg\<lparr>Wasm_msg := Some no_wasm_msg\<rparr>) = [WasmKind]
   \<and> fst (Encode example_Env example_registry example_ctx example_sender ''wasm.wasm1contract''
        (no_msg\<lparr>Wasm_msg := Some no_wasm_msg\<rparr>))
     = Done ([], Some (Wrap ErrUnknownMsg ''unknown variant of Wasm''))"
  by (simp add: populated_def no_msg_def no_wasm_msg_def Encode_def example_registry_def
      DefaultEncoders_def NoCustomMsg_def EncodeWasmMsg_def)

text \<open>
  The last case of the switch does not read the registry: a message whose only populated
  variant is \<open>Gov\<close> is encoded by \<open>EncodeGovMsg\<close>, whatever the slot \<open>Gov\<close> of the
  registry \<open>e\<close> holds.
\<close>

lemma Encode_Gov_ignores_the_registry:
  "Bank_msg msg = None \<Longrightarrow> Custom_msg msg = None \<Longrightarrow> Distribution_msg msg = None \<Longrightarrow>
   IBC_msg msg = None \<Longrightarrow> IBC2_msg msg = None \<Longrightarrow> Staking_msg msg = None \<Longrightarrow>
   Any_msg msg = None \<Longrightarrow> Wasm_msg msg = None \<Longrightarrow> Gov_msg msg = Some gov \<Longrightarrow>
   Encode E e ctx contractAddr contractIBCPortID msg = (EncodeGovMsg E contractAddr gov, ctx)"
  by (simp add: Encode_def)

text \<open>
  C1, evaluated on the code. The default registry is merged with an override record
  that supplies the governance encoder \<open>drop_votes\<close>; the merged registry holds that
  encoder in its slot \<open>Gov\<close>, and \<open>drop_votes\<close> returns no message for the vote. \<open>Encode\<close>,
  given the merged registry and a message whose populated variant is the vote, returns the
  vote message of the built-in \<open>EncodeGovMsg\<close>: the registered encoder is not invoked.
\<close>

theorem Encode_bypasses_the_registered_Gov_encoder:
  "Gov (Merge example_registry (Some (no_overrides\<lparr>Gov := Some drop_votes\<rparr>))) = Some drop_votes
   \<and> drop_votes example_sender vote_yes_7 = Done ([], None)
   \<and> Encode example_Env (Merge example_registry (Some (no_overrides\<lparr>Gov := Some drop_votes\<rparr>)))
        example_ctx example_sender ''wasm.wasm1contract'' (no_msg\<lparr>Gov_msg := Some vote_yes_7\<rparr>)
      = (Done ([MsgVote 7 ''wasm1contract'' OptionYes []], None), example_ctx)"
  by (simp add: example_registry_def example_Env_def example_ctx_def no_overrides_def no_msg_def
      vote_yes_7_def drop_votes_def Merge_def DefaultEncoders_def Encode_def EncodeGovMsg_def
      convertVoteOption_def NewMsgVote_def)

subsection \<open>The bank encoder\<close>

text \<open>
  C8. For every sender and every bank message whose \<open>Send\<close> is populated: an empty
  amount list gives no message and no error; a non-empty list that
  \<open>ConvertWasmCoinsToSdkCoins\<close> converts gives exactly one \<open>MsgSend\<close> from the sender to
  the destination, carrying the converted coins; an error of the conversion is returned as
  the error, with no message. A panic of the conversion is a panic of the encoder.
\<close>

theorem EncodeBankMsg_send:
  "Send msg = Some (SendMsg toAddress amount) \<Longrightarrow>
     (amount = [] \<longrightarrow> EncodeBankMsg E sender msg = Done ([], None))
   \<and> (\<forall>toSend. amount \<noteq> [] \<and> ConvertWasmCoinsToSdkCoins E amount = Done (toSend, None) \<longrightarrow>
         EncodeBankMsg E sender msg =
           Done ([MsgSend (AccString E sender) toAddress toSend], None))
   \<and> (\<forall>toSend err.
         amount \<noteq> [] \<and> ConvertWasmCoinsToSdkCoins E amount = Done (toSend, Some err) \<longrightarrow>
         EncodeBankMsg E sender msg = Done ([], Some err))
   \<and> (\<forall>p. amount \<noteq> [] \<and> ConvertWasmCoinsToSdkCoins E amount = Panic p \<longrightarrow>
         EncodeBankMsg E sender msg = Panic p)"
  by (simp add: EncodeBankMsg_def)

text \<open>
  Three sends of the example sender: of no coins, of two coins, which come out sorted, and
  of a coin whose amount is not a number.
\<close>

theorem EncodeBankMsg_send_witness:
  "EncodeBankMsg example_Env example_sender \<lparr>Send = Some (SendMsg ''wasm1dest'' [])\<rparr>
     = Done ([], None)
   \<and> EncodeBankMsg example_Env example_sender
        \<lparr>Send = Some (SendMsg ''wasm1dest'' [WasmCoin ''uatom'' ''5'', WasmCoin ''abc'' ''7''])\<rparr>
     = Done ([MsgSend ''wasm1contract'' ''wasm1dest''
                [Coin ''abc'' (Some 7), Coin ''uatom'' (Some 5)]], None)
   \<and> EncodeBankMsg example_Env example_sender
        \<lparr>Send = Some (SendMsg ''wasm1dest'' [WasmCoin ''uatom'' ''five''])\<rparr>
     = Done ([], Some (Wrap ErrInvalidCoins ''fiveuatom''))"
proof -
  have a: "ConvertWasmCoinsToSdkCoins example_Env [WasmCoin ''uatom'' ''5'', WasmCoin ''abc'' ''7'']
           = Done ([Coin ''abc'' (Some 7), Coin ''uatom'' (Some 5)], None)"
    by (simp add: coin_defs example_Env_defs)
  have b: "ConvertWasmCoinsToSdkCoins example_Env [WasmCoin ''uatom'' ''five'']
           = Done ([], Some (Wrap ErrInvalidCoins ''fiveuatom''))"
    by (simp add: coin_defs example_Env_defs)
  show ?thesis
    using
      EncodeBankMsg_send [where msg = "\<lparr>Send = Some (SendMsg ''wasm1dest'' [])\<rparr>"
        and toAddress = "''wasm1dest''" and amount = "[]" and E = example_Env
        and sender = example_sender]
      EncodeBankMsg_send [where
        msg = "\<lparr>Send = Some (SendMsg ''wasm1dest''
                 [WasmCoin ''uatom'' ''5'', WasmCoin ''abc'' ''7''])\<rparr>"
        and toAddress = "''wasm1dest''"
        and amount = "[WasmCoin ''uatom'' ''5'', WasmCoin ''abc'' ''7'']"
        and E = example_Env and sender = example_sender]
      EncodeBankMsg_send [where
        msg = "\<lparr>Send = Some (SendMsg ''wasm1dest'' [WasmCoin ''uatom'' ''five''])\<rparr>"
        and toAddress = "''wasm1dest''" and amount = "[WasmCoin ''uatom'' ''five'']"
        and E = example_Env and sender = example_sender]
      a b
    by (simp add: example_Env_def)
qed

subsection \<open>The governance encoder\<close>

text \<open>
  C9. For every sender and every governance message that \<open>EncodeGovMsg\<close> encodes
  without error, the result is exactly one message, a \<open>MsgVote\<close> or a \<open>MsgVoteWeighted\<close>
  of the sender, whose metadata is the empty string. A plain vote Yes on proposal 7 yields
  the one message \<open>MsgVote\<close> with proposal 7, option Yes and empty metadata.
\<close>

theorem EncodeGovMsg_metadata_is_empty:
  "(EncodeGovMsg E sender msg = Done (msgs, None) \<longrightarrow>
      (\<exists>proposalId option. msgs = [MsgVote proposalId (AccString E sender) option []])
      \<or> (\<exists>proposalId options.
            msgs = [MsgVoteWeighted proposalId (AccString E sender) options []]))
   \<and> EncodeGovMsg E sender \<lparr>Vote = Some (VoteMsg 7 Yes), VoteWeighted = vw\<rparr>
       = Done ([MsgVote 7 (AccString E sender) OptionYes []], None)"
  by (auto simp add: EncodeGovMsg_def NewMsgVote_def NewMsgVoteWeighted_def convertVoteOption_def
      split: option.splits VoteMsg.splits VoteWeightedMsg.splits prod.splits voteOption.splits)

text \<open>The vote Yes on proposal 7, and a weighted vote of 0.7 Yes and 0.3 No.\<close>

theorem EncodeGovMsg_metadata_is_empty_witness:
  "EncodeGovMsg example_Env example_sender vote_yes_7
     = Done ([MsgVote 7 ''wasm1contract'' OptionYes []], None)
   \<and> EncodeGovMsg example_Env example_sender
       \<lparr>Vote = None, VoteWeighted = Some (VoteWeightedMsg 7
          [WeightedVoteOption_vm Yes ''0.7'', WeightedVoteOption_vm No ''0.3''])\<rparr>
     = Done ([MsgVoteWeighted 7 ''wasm1contract''
          [WeightedVoteOption OptionYes ''0.700000000000000000'',
           WeightedVoteOption OptionNo ''0.300000000000000000''] []], None)"
  using
    EncodeGovMsg_metadata_is_empty [of example_Env example_sender vote_yes_7
      "[MsgVote 7 ''wasm1contract'' OptionYes []]" None]
    EncodeGovMsg_metadata_is_empty [of example_Env example_sender
      "\<lparr>Vote = None, VoteWeighted = Some (VoteWeightedMsg 7
          [WeightedVoteOption_vm Yes ''0.7'', WeightedVoteOption_vm No ''0.3''])\<rparr>"
      "[MsgVoteWeighted 7 ''wasm1contract''
          [WeightedVoteOption OptionYes ''0.700000000000000000'',
           WeightedVoteOption OptionNo ''0.300000000000000000''] []]" None]
  by (simp add: example_Env_def vote_yes_7_def EncodeGovMsg_def NewMsgVote_def NewMsgVoteWeighted_def
      convertVoteOption_def)

subsection \<open>The IBC encoder\<close>

text \<open>
  C6 as stated fails. A message whose only populated sub-kind is \<open>PayPacketFee\<close> is
  answered with \<open>ErrUnknownMsg\<close> wrapped with a description: the root of the error is the
  root of the error for an unknown variant, not a kind of its own. And a message that
  populates \<open>CloseChannel\<close> beside \<open>PayPacketFee\<close> is encoded as the close of the channel:
  the fee sub-kind is passed over.
\<close>

theorem fee_messages_counterexample:
  "fst (EncodeIBCMsg example_Env example_portSource example_ctx example_sender
          ''wasm.wasm1contract''
          (no_ibc_msg\<lparr>PayPacketFee := Some (PayPacketFeeMsg ''transfer'' ''channel-0'')\<rparr>))
     = Done ([], Some (Wrap ErrUnknownMsg ''pay packet fee not supported''))
   \<and> root_cause (Wrap ErrUnknownMsg ''pay packet fee not supported'')
     = root_cause (Wrap ErrUnknownMsg ''unknown variant of IBC'')
   \<and> fst (EncodeIBCMsg example_Env example_portSource example_ctx example_sender
          ''wasm.wasm1contract''
          (no_ibc_msg\<lparr>CloseChannel := Some (CloseChannelMsg ''channel-0''),
                      PayPacketFee := Some (PayPacketFeeMsg ''transfer'' ''channel-0'')\<rparr>))
     = Done ([MsgChannelCloseInit ''wasm.wasm1contract'' ''channel-0'' ''wasm1contract''], None)"
  by (simp add: EncodeIBCMsg_def example_Env_def example_portSource_def example_ctx_def no_ibc_msg_def)

text \<open>
  C6, as the code has it. For every sender and every IBC message in which neither
  \<open>CloseChannel\<close> nor \<open>Transfer\<close> is populated and \<open>PayPacketFee\<close> or
  \<open>PayPacketFeeAsync\<close> is, the default IBC encoder returns no message and the error
  \<open>ErrUnknownMsg\<close>, wrapped with the description "pay packet fee not supported" or "pay
  packet fee async not supported". The description differs from that of an unknown variant;
  the kind of the error does not. The context is left as it was.
\<close>

theorem fee_messages_are_rejected_as_unknown:
  "CloseChannel msg = None \<and> Transfer msg = None
     \<and> (PayPacketFee msg \<noteq> None \<or> PayPacketFeeAsync msg \<noteq> None) \<longrightarrow>
   (\<exists>err. EncodeIBCMsg E portSource ctx sender contractIBCPortID msg = (Done ([], Some err), ctx)
      \<and> root_cause err = ErrUnknownMsg
      \<and> err = (if PayPacketFee msg \<noteq> None
                then Wrap ErrUnknownMsg ''pay packet fee not supported''
                else Wrap ErrUnknownMsg ''pay packet fee async not supported'')
      \<and> err \<noteq> Wrap ErrUnknownMsg ''unknown variant of IBC'')"
  by (auto simp add: EncodeIBCMsg_def split: option.splits)

theorem fee_messages_are_rejected_as_unknown_witness:
  "EncodeIBCMsg example_Env example_portSource example_ctx example_sender ''wasm.wasm1contract''
      (no_ibc_msg\<lparr>PayPacketFeeAsync := Some (PayPacketFeeAsyncMsg ''transfer'' ''channel-0'' 1)\<rparr>)
     = (Done ([], Some (Wrap ErrUnknownMsg ''pay packet fee async not supported'')), example_ctx)"
  using fee_messages_are_rejected_as_unknown [of
      "no_ibc_msg\<lparr>PayPacketFeeAsync := Some (PayPacketFeeAsyncMsg ''transfer'' ''channel-0'' 1)\<rparr>"
      example_Env example_portSource example_ctx example_sender "''wasm.wasm1contract''"]
  by (simp add: no_ibc_msg_def)

subsection \<open>The IBC v2 encoder\<close>

lemma quo_nonneg: "0 \<le> a \<Longrightarrow> 0 < b \<Longrightarrow> quo a b = a div b"
  by (cases "a = 0") (simp_all add: quo_def)

lemma Time_Unix_nonneg:
  assumes "0 \<le> nsec"
  shows "Time_Unix (time_Unix 0 nsec) = nsec div 1000000000"
proof -
  have q: "quo nsec 1000000000 = nsec div 1000000000"
    using assms by (simp add: quo_nonneg)
  have r: "\<not> nsec - nsec div 1000000000 * 1000000000 < 0"
    using assms by (simp add: minus_div_mult_eq_mod)
  show ?thesis
    using assms r by (auto simp add: Time_Unix_def time_Unix_def q Let_def)
qed

lemma timeout_below_2_63:
  assumes "timeout < 2 ^ 63"
  shows "to_uint64 (Time_Unix (time_Unix 0 (int64 timeout))) = timeout div 1000000000"
proof -
  have u: "uint timeout < 2 ^ 63"
    using assms by (simp add: word_less_def)
  have s: "sint timeout = uint timeout"
  proof -
    have "- (2 ^ 63) \<le> uint timeout"
      by (rule order_trans [of _ 0]) simp_all
    then have "signed_take_bit (63::nat) (uint timeout) = uint timeout"
      using u by (rule signed_take_bit_int_eq_self)
    then show ?thesis
      by (simp add: sint_uint)
  qed
  have "Time_Unix (time_Unix 0 (int64 timeout)) = uint timeout div 1000000000"
    by (simp add: int64_def s Time_Unix_nonneg)
  then show ?thesis
    by (simp add: to_uint64_def word_div_def)
qed

text \<open>
  Below \<open>2 ^ 63\<close> nanoseconds the encoder does what C7 says: the timeout timestamp of the
  host message is the timeout divided by 1000000000.
\<close>

lemma EncodeIBCv2Msg_timeout_below_2_63:
  "timeout < 2 ^ 63 \<Longrightarrow>
   EncodeIBCv2Msg E sender \<lparr>SendPacket = Some (IBC2SendPacketMsg sourceClient payloads timeout)\<rparr>
     = Done ([MsgSendPacket sourceClient (timeout div 1000000000) (map convert_payload payloads)
               (AccString E sender)], None)"
  by (simp add: EncodeIBCv2Msg_def timeout_below_2_63)

text \<open>
  C7, evaluated on the code. The timeout of 1500000000 ns gives the timestamp 1. The
  timeout \<open>2 ^ 64 - 1\<close> ns is read by \<open>int64\<close> as \<open>-1\<close>, \<open>time.Unix(0, -1).Unix()\<close> is
  \<open>-1\<close>, and \<open>uint64\<close> makes of it the timestamp \<open>2 ^ 64 - 1\<close>, where the timeout divided
  by 1000000000 is 18446744073.
\<close>

theorem EncodeIBCv2Msg_timeout_wraps_from_2_63:
  "EncodeIBCv2Msg E sender
      \<lparr>SendPacket = Some (IBC2SendPacketMsg sourceClient [] 18446744073709551615)\<rparr>
     = Done ([MsgSendPacket sourceClient 18446744073709551615 [] (AccString E sender)], None)
   \<and> (18446744073709551615 :: uint64) div 1000000000 = 18446744073
   \<and> EncodeIBCv2Msg E sender \<lparr>SendPacket = Some (IBC2SendPacketMsg sourceClient [] 1500000000)\<rparr>
     = Done ([MsgSendPacket sourceClient 1 [] (AccString E sender)], None)"
  by (simp add: EncodeIBCv2Msg_def to_uint64_def Time_Unix_def time_Unix_def int64_def quo_def
      Let_def)

subsection \<open>The Any encoder\<close>

lemma decode_calls_no_charge:
  "filter is_ConsumeGas_call (decode_calls unpacker codecAny) = []"
  by (simp add: decode_calls_def split: sum.split)

text \<open>
  C2. For every context, sender, message and codec, the calls that the encoder of
  \<open>EncodeAnyMsg\<close> adds to the trace are one charge of \<open>anyMsgGasCost / DefaultGasMultiplier\<close>
  on the gas meter, followed, unless the meter panics, by the calls to the codec, which
  hold no charge: the gas is charged exactly once, and before \<open>UnpackAny\<close> is called. The
  meter of the returned context is the meter after that one charge. When \<open>UnpackAny\<close>
  fails, the encoder returns the error \<open>ErrInvalidMsg\<close>, and the charge has been made all
  the same.
\<close>

theorem EncodeAnyMsg_charges_gas_once_before_decoding:
  "trace (snd (EncodeAnyMsg E unpacker ctx sender msg)) =
     trace ctx
     @ ConsumeGas_call (anyMsgGasCost div DefaultGasMultiplier E) ''unpacking AnyMsg''
     # (if snd (ConsumeGas (Meter ctx) (anyMsgGasCost div DefaultGasMultiplier E)
                 ''unpacking AnyMsg'') = None
        then decode_calls unpacker (codec_Any (TypeURL msg) (Value msg))
        else [])
   \<and> filter is_ConsumeGas_call (decode_calls unpacker (codec_Any (TypeURL msg) (Value msg))) = []
   \<and> Meter (snd (EncodeAnyMsg E unpacker ctx sender msg)) =
       fst (ConsumeGas (Meter ctx) (anyMsgGasCost div DefaultGasMultiplier E) ''unpacking AnyMsg'')
   \<and> (\<forall>err. UnpackAny unpacker (codec_Any (TypeURL msg) (Value msg)) = Inl err
          \<and> snd (ConsumeGas (Meter ctx) (anyMsgGasCost div DefaultGasMultiplier E)
                   ''unpacking AnyMsg'') = None \<longrightarrow>
        fst (EncodeAnyMsg E unpacker ctx sender msg) =
          Done ([], Some (Wrap ErrInvalidMsg
            (''Cannot unpack proto message with type URL: '' @ TypeURL msg))))"
  by (simp add: EncodeAnyMsg_def Let_def decode_calls_def split: option.split sum.split)

text \<open>
  A message of a type that the example codec does not know, on a meter with a limit of
  1000: the decoding fails, 5 gas has been charged, and the trace holds the charge and then
  the call of \<open>UnpackAny\<close>.
\<close>

theorem EncodeAnyMsg_charges_gas_once_before_decoding_witness:
  "EncodeAnyMsg example_Env example_unpacker example_ctx example_sender
      (AnyMsg ''/unknown.Type'' [1])
     = (Done ([], Some (Wrap ErrInvalidMsg
          ''Cannot unpack proto message with type URL: /unknown.Type'')),
        \<lparr>Meter = GasMeter (Some 1000) 5,
         trace = [ConsumeGas_call 5 ''unpacking AnyMsg'',
                  UnpackAny_call (codec_Any ''/unknown.Type'' [1])]\<rparr>)"
proof -
  have m: "ConsumeGas (GasMeter (Some 1000) 0) 5 ''unpacking AnyMsg''
            = (GasMeter (Some 1000) 5, None)"
    by (simp add: ConsumeGas_def MaxUint64_def)
  have u: "UnpackAny example_unpacker (codec_Any ''/unknown.Type'' [1])
            = Inl (LibError ''no concrete type registered for type URL'')"
    by (simp add: example_unpacker_def)
  have g: "anyMsgGasCost div DefaultGasMultiplier example_Env = 5"
    by (simp add: anyMsgGasCost_def example_Env_def)
  let ?r = "EncodeAnyMsg example_Env example_unpacker example_ctx example_sender
              (AnyMsg ''/unknown.Type'' [1])"
  have "trace (snd ?r) = [ConsumeGas_call 5 ''unpacking AnyMsg'',
                  UnpackAny_call (codec_Any ''/unknown.Type'' [1])]"
    and "Meter (snd ?r) = GasMeter (Some 1000) 5"
    and "fst ?r = Done ([], Some (Wrap ErrInvalidMsg
          ''Cannot unpack proto message with type URL: /unknown.Type''))"
    using EncodeAnyMsg_charges_gas_once_before_decoding
      [of example_Env example_unpacker example_ctx example_sender "AnyMsg ''/unknown.Type'' [1]"]
    by (simp_all add: g m u example_ctx_def decode_calls_def)
  then show ?thesis
    by (cases ?r; cases "snd ?r") simp
qed

subsection \<open>The coin conversion\<close>

text \<open>
  \<open>isSorted\<close> is sortedness of the denominations; on a list of distinct denominations
  the grouping of \<open>safeAdd\<close> makes one group per coin.
\<close>

lemma canonical_iff:
  "canonical coins \<longleftrightarrow>
     sorted (map Denom coins) \<and> distinct (map Denom coins)
     \<and> (\<forall>c \<in> set coins. \<exists>a. Amount c = Some a \<and> 0 < a \<and> a < 2 ^ MaxBitLen)"
  by (auto simp add: canonical_def split: option.splits)

lemma isSorted_iff: "isSorted coins \<longleftrightarrow> sorted (map Denom coins)"
  by (induction coins rule: isSorted.induct) (auto simp add: not_less intro: order_trans)

lemma uniq_append_fresh:
  "Denom c \<notin> fst ` set m \<Longrightarrow> uniq_append m c = m @ [(Denom c, [c])]"
  by (induction m) auto

lemma foldl_uniq_append_distinct:
  "distinct (map Denom xs) \<Longrightarrow> foldl uniq_append [] xs = map (\<lambda>x. (Denom x, [x])) xs"
proof (induction xs rule: rev_induct)
  case Nil
  then show ?case by simp
next
  case (snoc x xs)
  then have "Denom x \<notin> fst ` set (map (\<lambda>x. (Denom x, [x])) xs)"
    by (auto simp add: image_iff)
  with snoc show ?case
    by (simp add: uniq_append_fresh)
qed

lemma uniqCoins_single:
  "distinct (map Denom coins) \<Longrightarrow>
   uniqCoins coins [c] = uniq_append (map (\<lambda>x. (Denom x, [x])) coins) c"
  by (simp add: uniqCoins_def foldl_uniq_append_distinct)

lemma coalesce_singletons:
  "\<forall>x \<in> set xs. \<exists>a. Amount x = Some a \<and> 0 < a \<and> a < 2 ^ MaxBitLen \<Longrightarrow>
   coalesce (map (\<lambda>x. (Denom x, [x])) xs) co = Done (co @ xs)"
proof (induction xs arbitrary: co)
  case Nil
  then show ?case by simp
next
  case (Cons x xs)
  then obtain a where a: "Amount x = Some a" "0 < a" "a < 2 ^ MaxBitLen"
    by auto
  have x: "Coin (Denom x) (Some a) = x"
    using a by (cases x) simp
  have "sum_group (Coin (Denom x) (Some 0)) [x] = Done x"
    using a x by (simp add: Coin_Add_def Int_Add_def BitLen_exceeds_def)
  moreover have "Coin_IsZero x = Done False"
    using a by (simp add: Coin_IsZero_def)
  ultimately show ?case
    using Cons by simp
qed

lemma coalesce_merge:
  assumes "\<forall>x \<in> set xs. \<exists>a. Amount x = Some a \<and> 0 < a \<and> a < 2 ^ MaxBitLen"
    and "Amount c = Some b" and "0 \<le> b" and "b < 2 ^ MaxBitLen"
    and "\<forall>x \<in> set xs. Denom x = Denom c \<longrightarrow> amount_of x + b < 2 ^ MaxBitLen"
  shows "coalesce (uniq_append (map (\<lambda>x. (Denom x, [x])) xs) c) co = Done (co @ merge_coin xs c)"
  using assms
proof (induction xs arbitrary: co)
  case Nil
  have c: "Coin (Denom c) (Some b) = c"
    using Nil by (cases c) simp
  have "sum_group (Coin (Denom c) (Some 0)) [c] = Done c"
    using Nil c by (simp add: Coin_Add_def Int_Add_def BitLen_exceeds_def)
  moreover have "Coin_IsZero c = Done (b = 0)"
    using Nil by (simp add: Coin_IsZero_def)
  ultimately show ?case
    using Nil by (simp add: amount_of_def)
next
  case (Cons x xs)
  then obtain a where a: "Amount x = Some a" "0 < a" "a < 2 ^ MaxBitLen"
    by auto
  have x: "Coin (Denom x) (Some a) = x"
    using a by (cases x) simp
  show ?case
  proof (cases "Denom x = Denom c")
    case True
    then have ab: "a + b < 2 ^ MaxBitLen"
      using Cons.prems a by (simp add: amount_of_def)
    have "sum_group (Coin (Denom x) (Some 0)) [x, c] = Done (Coin (Denom x) (Some (a + b)))"
      using a ab True Cons.prems
      by (simp add: Coin_Add_def Int_Add_def BitLen_exceeds_def)
    moreover have "Coin_IsZero (Coin (Denom x) (Some (a + b))) = Done False"
      using a Cons.prems by (simp add: Coin_IsZero_def)
    moreover have "coalesce (map (\<lambda>x. (Denom x, [x])) xs) (co @ [Coin (Denom x) (Some (a + b))])
        = Done ((co @ [Coin (Denom x) (Some (a + b))]) @ xs)"
      using Cons.prems by (intro coalesce_singletons) simp
    ultimately show ?thesis
      using True a Cons.prems by (simp add: amount_of_def)
  next
    case False
    have "sum_group (Coin (Denom x) (Some 0)) [x] = Done x"
      using a x by (simp add: Coin_Add_def Int_Add_def BitLen_exceeds_def)
    moreover have "Coin_IsZero x = Done False"
      using a by (simp add: Coin_IsZero_def)
    moreover have "coalesce (uniq_append (map (\<lambda>x. (Denom x, [x])) xs) c) (co @ [x])
        = Done ((co @ [x]) @ merge_coin xs c)"
      using Cons.prems by (intro Cons.IH) simp_all
    ultimately show ?thesis
      using False by simp
  qed
qed


lemma coin_total_Cons:
  "coin_total (x # xs) d = (if Denom x = d then amount_of x else 0) + coin_total xs d"
  by (simp add: coin_total_def)

lemma coin_total_absent:
  "d \<notin> Denom ` set xs \<Longrightarrow> coin_total xs d = 0"
  by (induction xs) (auto simp add: coin_total_Cons coin_total_def)

lemma coin_total_member:
  "distinct (map Denom xs) \<Longrightarrow> x \<in> set xs \<Longrightarrow> coin_total xs (Denom x) = amount_of x"
  by (induction xs) (auto simp add: coin_total_Cons coin_total_absent)

lemma coin_total_sort: "coin_total (Coins_Sort xs) d = coin_total xs d"
  by (simp add: coin_total_def Coins_Sort_def sort_key_stable)

lemma denoms_merge_coin:
  "Denom ` set (merge_coin xs c) \<subseteq> insert (Denom c) (Denom ` set xs)"
  by (induction xs) auto

lemma distinct_merge_coin:
  "distinct (map Denom xs) \<Longrightarrow> distinct (map Denom (merge_coin xs c))"
proof (induction xs)
  case Nil
  then show ?case by simp
next
  case (Cons x xs)
  show ?case
  proof (cases "Denom x = Denom c")
    case True
    with Cons.prems show ?thesis by simp
  next
    case False
    have "Denom x \<notin> Denom ` set (merge_coin xs c)"
      using denoms_merge_coin [of xs c] Cons.prems False by auto
    with False Cons show ?thesis by simp
  qed
qed

lemma coin_total_merge_coin:
  "distinct (map Denom xs) \<Longrightarrow>
   coin_total (merge_coin xs c) d = coin_total xs d + (if d = Denom c then amount_of c else 0)"
proof (induction xs)
  case Nil
  then show ?case by (simp add: coin_total_def amount_of_def)
next
  case (Cons x xs)
  show ?case
  proof (cases "Denom x = Denom c")
    case True
    then have "coin_total xs (Denom c) = 0"
      using Cons.prems by (intro coin_total_absent) auto
    with True show ?thesis
      by (auto simp add: coin_total_Cons amount_of_def)
  next
    case False
    with Cons show ?thesis
      by (auto simp add: coin_total_Cons)
  qed
qed

lemma amounts_merge_coin:
  assumes "\<forall>x \<in> set xs. \<exists>a. Amount x = Some a \<and> 0 < a \<and> a < 2 ^ MaxBitLen"
    and "Amount c = Some b" and "0 \<le> b" and "b < 2 ^ MaxBitLen"
    and "\<forall>x \<in> set xs. Denom x = Denom c \<longrightarrow> amount_of x + b < 2 ^ MaxBitLen"
  shows "\<forall>x \<in> set (merge_coin xs c). \<exists>a. Amount x = Some a \<and> 0 < a \<and> a < 2 ^ MaxBitLen"
  using assms
proof (induction xs)
  case Nil
  then show ?case by (auto simp add: amount_of_def)
next
  case (Cons x xs)
  show ?case
  proof (cases "Denom x = Denom c")
    case True
    with Cons.prems show ?thesis
      by (auto simp add: amount_of_def)
  next
    case False
    have "\<forall>x \<in> set (merge_coin xs c). \<exists>a. Amount x = Some a \<and> 0 < a \<and> a < 2 ^ MaxBitLen"
      using Cons.prems by (intro Cons.IH) simp_all
    with False Cons.prems show ?thesis by simp
  qed
qed

lemma canonical_Coins_Sort:
  assumes "distinct (map Denom xs)"
    and "\<forall>x \<in> set xs. \<exists>a. Amount x = Some a \<and> 0 < a \<and> a < 2 ^ MaxBitLen"
  shows "canonical (Coins_Sort xs)"
proof -
  have "mset (map Denom (sort_key Denom xs)) = mset (map Denom xs)"
    by simp
  then have "distinct (map Denom (sort_key Denom xs))"
    using assms(1) mset_eq_imp_distinct_iff by blast
  then show ?thesis
    using assms(2) by (simp add: canonical_iff Coins_Sort_def)
qed

lemma Coins_Add_single:
  assumes "canonical acc"
    and "Amount c = Some b" and "0 \<le> b"
    and "coin_total acc (Denom c) + b < 2 ^ MaxBitLen"
  shows "\<exists>acc'. Coins_Add acc [c] = Done acc' \<and> canonical acc'
           \<and> (\<forall>d. coin_total acc' d = coin_total acc d + (if d = Denom c then b else 0))"
proof -
  have d: "distinct (map Denom acc)" and s: "sorted (map Denom acc)"
    and p: "\<forall>x \<in> set acc. \<exists>a. Amount x = Some a \<and> 0 < a \<and> a < 2 ^ MaxBitLen"
    using assms(1) by (simp_all add: canonical_iff)
  have "\<forall>x \<in> set acc. 0 \<le> amount_of x"
    using p by (fastforce simp add: amount_of_def)
  then have nonneg: "0 \<le> coin_total acc (Denom c)"
    by (auto simp add: coin_total_def intro!: sum_list_nonneg)
  then have b: "b < 2 ^ MaxBitLen"
    using assms(4) by simp
  have o: "\<forall>x \<in> set acc. Denom x = Denom c \<longrightarrow> amount_of x + b < 2 ^ MaxBitLen"
    using coin_total_member [OF d] assms(4) by metis
  have "coalesce (uniqCoins acc [c]) [] = Done ([] @ merge_coin acc c)"
    unfolding uniqCoins_single [OF d]
    using p assms(2,3) b o by (rule coalesce_merge)
  then have add: "Coins_Add acc [c] = Done (Coins_Sort (merge_coin acc c))"
    using s by (simp add: Coins_Add_def safeAdd_def isSorted_iff)
  have "canonical (Coins_Sort (merge_coin acc c))"
    using distinct_merge_coin [OF d] amounts_merge_coin [OF p assms(2,3) b o]
    by (rule canonical_Coins_Sort)
  moreover have "\<forall>d. coin_total (Coins_Sort (merge_coin acc c)) d
      = coin_total acc d + (if d = Denom c then b else 0)"
    using assms(2) by (simp add: coin_total_sort coin_total_merge_coin [OF d] amount_of_def)
  ultimately show ?thesis
    using add by blast
qed


lemma Convert_valid_coin:
  "valid_coin E c \<Longrightarrow>
   ConvertWasmCoinToSdkCoin E c = (Coin (wDenom c) (Some (parsed_amount E c)), None)
   \<and> 0 \<le> parsed_amount E c \<and> parsed_amount E c < 2 ^ MaxBitLen"
  by (auto simp add: valid_coin_def ConvertWasmCoinToSdkCoin_def NewIntFromString_def
      BitLen_exceeds_def Coin_Validate_def parsed_amount_def split: option.splits)

lemma denom_total_Cons:
  "denom_total E (c # coins) d =
     (if wDenom c = d then parsed_amount E c else 0) + denom_total E coins d"
  by (simp add: denom_total_def)

lemma denom_total_nonneg:
  "\<forall>c \<in> set coins. valid_coin E c \<Longrightarrow> 0 \<le> denom_total E coins d"
  by (auto simp add: denom_total_def Convert_valid_coin intro!: sum_list_nonneg)

lemma convert_coins_loop_valid:
  assumes "canonical acc"
    and "\<forall>c \<in> set coins. valid_coin E c"
    and "\<forall>d. coin_total acc d + denom_total E coins d < 2 ^ MaxBitLen"
  shows "\<exists>out. convert_coins_loop E acc coins = Done (out, None) \<and> canonical out
           \<and> (\<forall>d. coin_total out d = coin_total acc d + denom_total E coins d)"
  using assms
proof (induction coins arbitrary: acc)
  case Nil
  then have "Coins_Sort acc = acc"
    by (simp add: canonical_iff Coins_Sort_def sort_key_id_if_sorted)
  with Nil show ?case
    by (simp add: denom_total_def)
next
  case (Cons c coins)
  let ?b = "parsed_amount E c"
  have v: "valid_coin E c" and vs: "\<forall>c \<in> set coins. valid_coin E c"
    using Cons.prems by simp_all
  have conv: "ConvertWasmCoinToSdkCoin E c = (Coin (wDenom c) (Some ?b), None)"
    and b0: "0 \<le> ?b"
    using Convert_valid_coin [OF v] by simp_all
  have "coin_total acc (wDenom c) + denom_total E (c # coins) (wDenom c) < 2 ^ MaxBitLen"
    using Cons.prems by blast
  moreover have "0 \<le> denom_total E coins (wDenom c)"
    using vs by (rule denom_total_nonneg)
  ultimately have fits: "coin_total acc (Denom (Coin (wDenom c) (Some ?b))) + ?b < 2 ^ MaxBitLen"
    by (simp add: denom_total_Cons)
  obtain acc' where add: "Coins_Add acc [Coin (wDenom c) (Some ?b)] = Done acc'"
    and can: "canonical acc'"
    and tot: "\<forall>d. coin_total acc' d = coin_total acc d + (if d = wDenom c then ?b else 0)"
    using Coins_Add_single [OF Cons.prems(1) _ b0 fits] by auto
  have "\<forall>d. coin_total acc' d + denom_total E coins d < 2 ^ MaxBitLen"
  proof
    fix d
    have "coin_total acc d + denom_total E (c # coins) d < 2 ^ MaxBitLen"
      using Cons.prems by blast
    then show "coin_total acc' d + denom_total E coins d < 2 ^ MaxBitLen"
      using tot by (auto simp add: denom_total_Cons)
  qed
  then obtain out where out: "convert_coins_loop E acc' coins = Done (out, None)"
    "canonical out" "\<forall>d. coin_total out d = coin_total acc' d + denom_total E coins d"
    using Cons.IH [OF can vs] by blast
  have "convert_coins_loop E acc (c # coins) = Done (out, None)"
    using conv add out(1) by simp
  moreover have "\<forall>d. coin_total out d = coin_total acc d + denom_total E (c # coins) d"
    using out(3) tot by (auto simp add: denom_total_Cons)
  ultimately show ?case
    using out(2) by blast
qed

text \<open>
  C3, as the code has it. For every list of coins whose denominations all pass the
  denomination rule, whose amounts all read as non-negative integers of at most 256 bits,
  and in which the total of every denomination stays below \<open>2 ^ 256\<close>,
  \<open>ConvertWasmCoinsToSdkCoins\<close> returns, with no error, a list whose denominations are
  ascending and distinct, in which the amount of each denomination is the exact sum of the
  input amounts of that denomination, and which lists exactly the denominations of the input
  whose sum is not zero.
\<close>

theorem ConvertWasmCoinsToSdkCoins_normalizes:
  assumes "\<forall>c \<in> set coins. valid_coin E c"
    and "\<forall>c \<in> set coins. denom_total E coins (wDenom c) < 2 ^ MaxBitLen"
  shows "\<exists>out. ConvertWasmCoinsToSdkCoins E coins = Done (out, None)
           \<and> sorted (map Denom out) \<and> distinct (map Denom out)
           \<and> (\<forall>x \<in> set out. Amount x = Some (denom_total E coins (Denom x)))
           \<and> set (map Denom out) = {d \<in> wDenom ` set coins. denom_total E coins d \<noteq> 0}"
proof -
  have absent: "denom_total E coins d = 0" if "d \<notin> wDenom ` set coins" for d
  proof -
    have "filter (\<lambda>c. wDenom c = d) coins = []"
      using that by (auto simp add: filter_empty_conv)
    then show ?thesis by (simp add: denom_total_def)
  qed
  have bound: "\<forall>d. coin_total [] d + denom_total E coins d < 2 ^ MaxBitLen"
  proof
    fix d
    show "coin_total [] d + denom_total E coins d < 2 ^ MaxBitLen"
    proof (cases "d \<in> wDenom ` set coins")
      case True
      then obtain c where "c \<in> set coins" "d = wDenom c" by blast
      then have "denom_total E coins d < 2 ^ MaxBitLen" using assms(2) by blast
      then show ?thesis by (simp add: coin_total_def)
    next
      case False
      then have "denom_total E coins d = 0" by (rule absent)
      then show ?thesis by (simp add: coin_total_def)
    qed
  qed
  have "canonical []" by (simp add: canonical_iff)
  then obtain out where out: "convert_coins_loop E [] coins = Done (out, None)"
    and can: "canonical out"
    and tot: "\<forall>d. coin_total out d = coin_total [] d + denom_total E coins d"
    using convert_coins_loop_valid [OF _ assms(1) bound] by blast
  have t: "coin_total out d = denom_total E coins d" for d
    using tot by (simp add: coin_total_def)
  have d: "distinct (map Denom out)" and s: "sorted (map Denom out)"
    and p: "\<forall>x \<in> set out. \<exists>a. Amount x = Some a \<and> 0 < a \<and> a < 2 ^ MaxBitLen"
    using can by (simp_all add: canonical_iff)
  have am: "Amount x = Some (denom_total E coins (Denom x)) \<and> denom_total E coins (Denom x) \<noteq> 0"
    if mem: "x \<in> set out" for x
  proof -
    obtain a where a: "Amount x = Some a" "0 < a"
      using p mem by blast
    have "amount_of x = a"
      by (simp add: amount_of_def a(1))
    moreover have "coin_total out (Denom x) = amount_of x"
      using d mem by (rule coin_total_member)
    ultimately have "denom_total E coins (Denom x) = a"
      by (simp only: t [symmetric])
    with a show ?thesis
      by simp
  qed
  have dn: "set (map Denom out) = {d \<in> wDenom ` set coins. denom_total E coins d \<noteq> 0}"
  proof (rule set_eqI)
    fix dn
    show "dn \<in> set (map Denom out) \<longleftrightarrow> dn \<in> {d \<in> wDenom ` set coins. denom_total E coins d \<noteq> 0}"
    proof
      assume "dn \<in> set (map Denom out)"
      then obtain x where x: "x \<in> set out" "dn = Denom x" by auto
      then have nz: "denom_total E coins dn \<noteq> 0" using am [of x] by simp
      then have "dn \<in> wDenom ` set coins" using absent [of dn] by blast
      then show "dn \<in> {d \<in> wDenom ` set coins. denom_total E coins d \<noteq> 0}"
        using nz by simp
    next
      assume "dn \<in> {d \<in> wDenom ` set coins. denom_total E coins d \<noteq> 0}"
      then have "coin_total out dn \<noteq> 0" by (simp add: t)
      then have "dn \<in> Denom ` set out"
        using coin_total_absent [of dn out] by blast
      then show "dn \<in> set (map Denom out)"
        by simp
    qed
  qed
  have "\<forall>x \<in> set out. Amount x = Some (denom_total E coins (Denom x))"
    using am by blast
  then show ?thesis
    using out s d dn unfolding ConvertWasmCoinsToSdkCoins_def by blast
qed

text \<open>
  The example coins, 5 and 10 of \<open>uatom\<close>, 7 of \<open>abc\<close> and 0 of \<open>zzz\<close>, come out as 7 of
  \<open>abc\<close> and 15 of \<open>uatom\<close>.
\<close>

theorem ConvertWasmCoinsToSdkCoins_normalizes_witness:
  "ConvertWasmCoinsToSdkCoins example_Env example_coins
     = Done ([Coin ''abc'' (Some 7), Coin ''uatom'' (Some 15)], None)
   \<and> denom_total example_Env example_coins ''uatom'' = 15
   \<and> denom_total example_Env example_coins ''zzz'' = 0"
proof -
  have v: "\<forall>c \<in> set example_coins. valid_coin example_Env c"
    by (simp add: example_Env_defs example_coins_def valid_coin_def MaxBitLen_def)
  have b: "\<forall>c \<in> set example_coins.
      denom_total example_Env example_coins (wDenom c) < 2 ^ MaxBitLen"
    by (simp add: example_Env_defs example_coins_def denom_total_def parsed_amount_def MaxBitLen_def)
  have e: "ConvertWasmCoinsToSdkCoins example_Env example_coins
     = Done ([Coin ''abc'' (Some 7), Coin ''uatom'' (Some 15)], None)"
    by (simp add: coin_defs example_Env_defs example_coins_def)
  have t: "denom_total example_Env example_coins ''uatom'' = 15"
    "denom_total example_Env example_coins ''zzz'' = 0"
    by (simp_all add: example_Env_defs example_coins_def denom_total_def parsed_amount_def)
  from ConvertWasmCoinsToSdkCoins_normalizes [OF v b] e t show ?thesis
    by simp
qed

text \<open>
  C3 as stated fails. The amount of each coin below reads as a non-negative integer.
  A coin whose denomination does not pass the denomination rule makes the conversion return
  an error; two coins of \<open>2 ^ 255\<close> of one denomination make the addition of \<open>sdkmath.Int\<close>
  panic, the sum being of more than 256 bits; and a denomination whose amounts sum to zero
  is left out of the result.
\<close>

theorem ConvertWasmCoinsToSdkCoins_counterexample:
  "ConvertWasmCoinsToSdkCoins example_Env [WasmCoin ''x'' ''1'']
     = Done ([], Some (LibError ''invalid denom: x''))
   \<and> big_SetString two_pow_255 = Some (2 ^ 255)
   \<and> ConvertWasmCoinsToSdkCoins example_Env
        [WasmCoin ''uatom'' two_pow_255, WasmCoin ''uatom'' two_pow_255]
     = Panic ''integer overflow''
   \<and> ConvertWasmCoinsToSdkCoins example_Env [WasmCoin ''uatom'' ''0''] = Done ([], None)"
  by (simp add: coin_defs example_Env_defs two_pow_255_def)


text \<open>
  The conversion of a list stops at the first coin that the single-coin conversion
  refuses; the coins before it only matter if their addition panics.
\<close>

lemma Convert_malformed:
  assumes "malformed_amount E (wAmount c)"
  shows "\<exists>err. snd (ConvertWasmCoinToSdkCoin E c) = Some err"
proof (cases "SetString E (wAmount c)")
  case None
  then show ?thesis
    by (simp add: ConvertWasmCoinToSdkCoin_def NewIntFromString_def)
next
  case (Some i)
  then have "i < 0"
    using assms by (simp add: malformed_amount_def)
  with Some show ?thesis
    by (simp add: ConvertWasmCoinToSdkCoin_def NewIntFromString_def Coin_Validate_def Let_def
        split: option.split)
qed

lemma convert_coins_loop_append:
  "convert_coins_loop E acc pre = Done (out, None) \<Longrightarrow>
   \<exists>acc'. \<forall>rest. convert_coins_loop E acc (pre @ rest) = convert_coins_loop E acc' rest"
proof (induction pre arbitrary: acc)
  case Nil
  then show ?case by auto
next
  case (Cons c pre)
  from Cons.prems obtain x acc1 where
    "ConvertWasmCoinToSdkCoin E c = (x, None)" "Coins_Add acc [x] = Done acc1"
    "convert_coins_loop E acc1 pre = Done (out, None)"
    by (auto split: prod.splits option.splits exec.splits)
  with Cons.IH [of acc1] show ?case
    by auto
qed

lemma convert_coins_loop_error_no_output:
  "convert_coins_loop E acc coins = Done (out, Some err) \<Longrightarrow> out = []"
  by (induction coins arbitrary: acc) (auto split: prod.splits option.splits exec.splits)

lemma convert_coins_loop_malformed_member:
  "c \<in> set coins \<Longrightarrow> snd (ConvertWasmCoinToSdkCoin E c) \<noteq> None \<Longrightarrow>
   convert_coins_loop E acc coins \<noteq> Done (out, None)"
  by (induction coins arbitrary: acc) (auto split: prod.splits option.splits exec.splits)

text \<open>
  C4 as stated fails. A negative amount is refused by \<open>Validate\<close>, not by the parser:
  the single-coin conversion returns the coin that it built beside the error, and with a
  denomination that is invalid too the error is that of the denomination, which says
  nothing of the amount. And a list whose coins before the malformed one overflow in their
  sum makes the list conversion panic before it reaches that coin: it returns no error.
\<close>

theorem malformed_amount_counterexample:
  "ConvertWasmCoinToSdkCoin example_Env (WasmCoin ''x'' ''-5'')
     = (Coin ''x'' (Some (- 5)), Some (LibError ''invalid denom: x''))
   \<and> ConvertWasmCoinToSdkCoin example_Env (WasmCoin ''uatom'' ''-5'')
     = (Coin ''uatom'' (Some (- 5)), Some (LibError ''negative coin amount: -5''))
   \<and> ConvertWasmCoinsToSdkCoins example_Env
        [WasmCoin ''uatom'' two_pow_255, WasmCoin ''uatom'' two_pow_255, WasmCoin ''uatom'' ''-5'']
     = Panic ''integer overflow''"
  by (simp add: coin_defs example_Env_defs two_pow_255_def format_int_def format_nat_def
      digits_of.simps)

text \<open>
  C4, as the code has it. For every coin whose amount is malformed (it does not read
  as a number, as the empty and the non-numeric texts do not, or it reads as a negative
  number):
  \<^item> when \<open>NewIntFromString\<close> refuses the amount (it is not a number, or of more than 256
    bits), \<open>ConvertWasmCoinToSdkCoin\<close> returns the zero coin and \<open>ErrInvalidCoins\<close> wrapped
    with the amount and the denomination;
  \<^item> when the amount reads as a number, it is negative, and \<open>ConvertWasmCoinToSdkCoin\<close>
    returns the coin that it built and the error of \<open>Validate\<close>: the error of the
    denomination rule when the denomination is invalid, the error of a negative amount
    otherwise; these two cases are all there are;
  \<^item> \<open>ConvertWasmCoinsToSdkCoins\<close> returns the error of the coin and the empty list for
    every list that begins with the coin, and for every list in which the coins before it
    convert without error;
  \<^item> for every list that holds the coin, the list conversion panics (in the addition of
    the coins before it) or returns an error and the empty list;
  \<^item> whenever the list conversion returns an error, the list beside it is empty.
\<close>

theorem malformed_amount_is_refused:
  assumes "malformed_amount E (wAmount c)"
  shows
    "(\<not> snd (NewIntFromString E (wAmount c)) \<longrightarrow>
        ConvertWasmCoinToSdkCoin E c =
          (Coin [] None, Some (Wrap ErrInvalidCoins (wAmount c @ wDenom c))))
     \<and> (\<forall>i. NewIntFromString E (wAmount c) = (Some i, True) \<longrightarrow>
           i < 0
           \<and> ConvertWasmCoinToSdkCoin E c =
               (Coin (wDenom c) (Some i),
                Some (case ValidateDenom E (wDenom c) of
                        Some err \<Rightarrow> err
                      | None \<Rightarrow> LibError (''negative coin amount: '' @ format_int i))))
     \<and> (snd (NewIntFromString E (wAmount c)) \<longrightarrow>
           (\<exists>i. NewIntFromString E (wAmount c) = (Some i, True)))
     \<and> (\<exists>err. snd (ConvertWasmCoinToSdkCoin E c) = Some err
           \<and> ConvertWasmCoinsToSdkCoins E (c # coins) = Done ([], Some err)
           \<and> (\<forall>pre out. ConvertWasmCoinsToSdkCoins E pre = Done (out, None) \<longrightarrow>
                 ConvertWasmCoinsToSdkCoins E (pre @ c # coins) = Done ([], Some err)))
     \<and> (\<forall>coins'. c \<in> set coins' \<longrightarrow>
           (\<exists>p. ConvertWasmCoinsToSdkCoins E coins' = Panic p)
           \<or> (\<exists>err. ConvertWasmCoinsToSdkCoins E coins' = Done ([], Some err)))
     \<and> (\<forall>coins' out err.
           ConvertWasmCoinsToSdkCoins E coins' = Done (out, Some err) \<longrightarrow> out = [])"
proof -
  have refused: "\<not> snd (NewIntFromString E (wAmount c)) \<longrightarrow>
        ConvertWasmCoinToSdkCoin E c =
          (Coin [] None, Some (Wrap ErrInvalidCoins (wAmount c @ wDenom c)))"
    by (cases "NewIntFromString E (wAmount c)") (simp add: ConvertWasmCoinToSdkCoin_def)
  have negative: "\<forall>i. NewIntFromString E (wAmount c) = (Some i, True) \<longrightarrow>
           i < 0
           \<and> ConvertWasmCoinToSdkCoin E c =
               (Coin (wDenom c) (Some i),
                Some (case ValidateDenom E (wDenom c) of
                        Some err \<Rightarrow> err
                      | None \<Rightarrow> LibError (''negative coin amount: '' @ format_int i)))"
  proof (intro allI impI)
    fix i
    assume h: "NewIntFromString E (wAmount c) = (Some i, True)"
    then have "SetString E (wAmount c) = Some i"
      by (auto simp add: NewIntFromString_def split: option.splits if_splits)
    then have neg: "i < 0"
      using assms by (simp add: malformed_amount_def)
    then have "ConvertWasmCoinToSdkCoin E c =
        (Coin (wDenom c) (Some i),
         Some (case ValidateDenom E (wDenom c) of
                 Some err \<Rightarrow> err
               | None \<Rightarrow> LibError (''negative coin amount: '' @ format_int i)))"
      using h
      by (simp add: ConvertWasmCoinToSdkCoin_def Coin_Validate_def Let_def split: option.split)
    with neg show "i < 0
           \<and> ConvertWasmCoinToSdkCoin E c =
               (Coin (wDenom c) (Some i),
                Some (case ValidateDenom E (wDenom c) of
                        Some err \<Rightarrow> err
                      | None \<Rightarrow> LibError (''negative coin amount: '' @ format_int i)))"
      by simp
  qed
  have exhaustive: "snd (NewIntFromString E (wAmount c)) \<longrightarrow>
           (\<exists>i. NewIntFromString E (wAmount c) = (Some i, True))"
    by (simp add: NewIntFromString_def split: option.split)
  obtain err where err: "snd (ConvertWasmCoinToSdkCoin E c) = Some err"
    using Convert_malformed [OF assms] by blast
  then obtain x where x: "ConvertWasmCoinToSdkCoin E c = (x, Some err)"
    by (cases "ConvertWasmCoinToSdkCoin E c") simp
  have step: "convert_coins_loop E acc (c # coins) = Done ([], Some err)" for acc
    using x by simp
  have first: "ConvertWasmCoinsToSdkCoins E (c # coins) = Done ([], Some err)"
    using step by (simp add: ConvertWasmCoinsToSdkCoins_def)
  have after: "\<forall>pre out. ConvertWasmCoinsToSdkCoins E pre = Done (out, None) \<longrightarrow>
            ConvertWasmCoinsToSdkCoins E (pre @ c # coins) = Done ([], Some err)"
  proof (intro allI impI)
    fix pre out
    assume "ConvertWasmCoinsToSdkCoins E pre = Done (out, None)"
    then obtain acc' where
      "\<forall>rest. convert_coins_loop E [] (pre @ rest) = convert_coins_loop E acc' rest"
      using convert_coins_loop_append [of E "[]" pre out]
      by (auto simp add: ConvertWasmCoinsToSdkCoins_def)
    then show "ConvertWasmCoinsToSdkCoins E (pre @ c # coins) = Done ([], Some err)"
      using step by (simp add: ConvertWasmCoinsToSdkCoins_def)
  qed
  have list: "\<exists>err. snd (ConvertWasmCoinToSdkCoin E c) = Some err
           \<and> ConvertWasmCoinsToSdkCoins E (c # coins) = Done ([], Some err)
           \<and> (\<forall>pre out. ConvertWasmCoinsToSdkCoins E pre = Done (out, None) \<longrightarrow>
                 ConvertWasmCoinsToSdkCoins E (pre @ c # coins) = Done ([], Some err))"
    using err first after by (intro exI [of _ err] conjI)
  have empty: "\<forall>coins' out err.
           ConvertWasmCoinsToSdkCoins E coins' = Done (out, Some err) \<longrightarrow> out = []"
    using convert_coins_loop_error_no_output [of E "[]"]
    by (auto simp add: ConvertWasmCoinsToSdkCoins_def)
  have member: "\<forall>coins'. c \<in> set coins' \<longrightarrow>
           (\<exists>p. ConvertWasmCoinsToSdkCoins E coins' = Panic p)
           \<or> (\<exists>err. ConvertWasmCoinsToSdkCoins E coins' = Done ([], Some err))"
  proof (intro allI impI)
    fix coins'
    assume mem: "c \<in> set coins'"
    show "(\<exists>p. ConvertWasmCoinsToSdkCoins E coins' = Panic p)
           \<or> (\<exists>err. ConvertWasmCoinsToSdkCoins E coins' = Done ([], Some err))"
    proof (cases "ConvertWasmCoinsToSdkCoins E coins'")
      case (Panic p)
      then show ?thesis by simp
    next
      case (Done r)
      obtain out e where r: "r = (out, e)"
        by (cases r)
      have "e \<noteq> None"
        using convert_coins_loop_malformed_member [of c coins' E "[]" out] mem err Done r
        by (auto simp add: ConvertWasmCoinsToSdkCoins_def)
      then obtain err' where e: "e = Some err'"
        by auto
      then have "out = []"
        using empty Done r by blast
      with Done r e show ?thesis
        by simp
    qed
  qed
  from refused negative exhaustive list member empty show ?thesis
    by (intro conjI)
qed

text \<open>
  A negative, an empty and a non-numeric amount, and a list in which the malformed coin
  comes second.
\<close>

theorem malformed_amount_is_refused_witness:
  "ConvertWasmCoinToSdkCoin example_Env (WasmCoin ''uatom'' ''-5'')
     = (Coin ''uatom'' (Some (- 5)), Some (LibError ''negative coin amount: -5''))
   \<and> ConvertWasmCoinToSdkCoin example_Env (WasmCoin ''uatom'' [])
     = (Coin [] None, Some (Wrap ErrInvalidCoins ''uatom''))
   \<and> ConvertWasmCoinToSdkCoin example_Env (WasmCoin ''uatom'' ''1e3'')
     = (Coin [] None, Some (Wrap ErrInvalidCoins ''1e3uatom''))
   \<and> ConvertWasmCoinsToSdkCoins example_Env
        [WasmCoin ''abc'' ''7'', WasmCoin ''uatom'' ''-5'', WasmCoin ''zzz'' ''1'']
     = Done ([], Some (LibError ''negative coin amount: -5''))"
proof -
  have m: "malformed_amount example_Env (wAmount (WasmCoin ''uatom'' ''-5''))"
    "malformed_amount example_Env (wAmount (WasmCoin ''uatom'' []))"
    "malformed_amount example_Env (wAmount (WasmCoin ''uatom'' ''1e3''))"
    by (simp_all add: malformed_amount_def example_Env_defs)
  have n: "NewIntFromString example_Env (wAmount (WasmCoin ''uatom'' ''-5'')) = (Some (- 5), True)"
    "\<not> snd (NewIntFromString example_Env (wAmount (WasmCoin ''uatom'' [])))"
    "\<not> snd (NewIntFromString example_Env (wAmount (WasmCoin ''uatom'' ''1e3'')))"
    by (simp_all add: NewIntFromString_def BitLen_exceeds_def MaxBitLen_def example_Env_defs)
  have v: "ValidateDenom example_Env ''uatom'' = None"
    by (simp add: example_Env_defs)
  have f: "format_int (- 5) = ''-5''"
    by (simp add: format_int_def format_nat_def digits_of.simps)
  have p: "ConvertWasmCoinsToSdkCoins example_Env [WasmCoin ''abc'' ''7'']
            = Done ([Coin ''abc'' (Some 7)], None)"
    by (simp add: coin_defs example_Env_defs)
  have neg: "ConvertWasmCoinToSdkCoin example_Env (WasmCoin ''uatom'' ''-5'')
     = (Coin ''uatom'' (Some (- 5)), Some (LibError ''negative coin amount: -5''))"
    using malformed_amount_is_refused [OF m(1), of "[WasmCoin ''zzz'' ''1'']"] n(1) v f
    by simp
  have blank: "ConvertWasmCoinToSdkCoin example_Env (WasmCoin ''uatom'' [])
     = (Coin [] None, Some (Wrap ErrInvalidCoins ''uatom''))"
    using malformed_amount_is_refused [OF m(2), of "[]"] n(2)
    by simp
  have nonnum: "ConvertWasmCoinToSdkCoin example_Env (WasmCoin ''uatom'' ''1e3'')
     = (Coin [] None, Some (Wrap ErrInvalidCoins ''1e3uatom''))"
    using malformed_amount_is_refused [OF m(3), of "[]"] n(3)
    by simp
  obtain err where
    e1: "snd (ConvertWasmCoinToSdkCoin example_Env (WasmCoin ''uatom'' ''-5'')) = Some err"
    and e2: "\<forall>pre out. ConvertWasmCoinsToSdkCoins example_Env pre = Done (out, None) \<longrightarrow>
       ConvertWasmCoinsToSdkCoins example_Env
         (pre @ WasmCoin ''uatom'' ''-5'' # [WasmCoin ''zzz'' ''1'']) = Done ([], Some err)"
    using malformed_amount_is_refused [OF m(1), of "[WasmCoin ''zzz'' ''1'']"] by blast
  have "ConvertWasmCoinsToSdkCoins example_Env
        ([WasmCoin ''abc'' ''7''] @ WasmCoin ''uatom'' ''-5'' # [WasmCoin ''zzz'' ''1''])
     = Done ([], Some err)"
    using e2 p by blast
  moreover have "err = LibError ''negative coin amount: -5''"
    using e1 neg by simp
  ultimately have "ConvertWasmCoinsToSdkCoins example_Env
        [WasmCoin ''abc'' ''7'', WasmCoin ''uatom'' ''-5'', WasmCoin ''zzz'' ''1'']
     = Done ([], Some (LibError ''negative coin amount: -5''))"
    by simp
  with neg blank nonnum show ?thesis
    by simp
qed

end
